theory Spec2Isabelle
  imports Complex_Main "HOL-Library.Sublist"
begin

section \<open>The EPA AQS acquisition notebook (code/2.EPA_data_acquisition.ipynb)\<close>

text \<open>
  The notebook defines two request functions, \<open>request_list_info\<close> and
  \<open>request_daily_summary\<close>, and a cell that calls the second once per year and averages
  the "aqi" field of the daily records. The functions mutate the dictionary they are
  given, sleep, talk to the network and print; the model makes each of these explicit:
  dictionaries live in a store indexed by address (two names may denote one dictionary),
  and a call returns the store after it, the list of effects it performed, in order, and
  either the exception that left the function or the value it returned.
\<close>

subsection \<open>Python values\<close>

text \<open>
  The values a request template holds: strings, floats (the four bounding-box fields) and
  \<open>None\<close>. Floats are modelled by rationals. Strings are lists of characters;
  \<open>length\<close> is Python's \<open>len\<close> on the ASCII strings the notebook uses.
\<close>

datatype pyval = PyNone | PyStr string | PyFloat rat

text \<open>Python truthiness, as tested by \<open>if x:\<close> and \<open>if not x:\<close>.\<close>

fun truthy :: "pyval \<Rightarrow> bool" where
  "truthy PyNone = False"
| "truthy (PyStr s) = (s \<noteq> [])"
| "truthy (PyFloat r) = (r \<noteq> 0)"

text \<open>
  What \<open>json.loads\<close> produces (through \<open>response.json()\<close>). \<open>JNull\<close> is Python's
  \<open>None\<close>; an object is a dictionary, kept as an association list read with
  \<open>map_of\<close>.
\<close>

datatype json =
    JNull
  | JBool bool
  | JNum rat
  | JStr string
  | JArr "json list"
  | JObj "(string \<times> json) list"

text \<open>
  Exceptions, all of them instances of Python's \<open>Exception\<close>: the ones the notebook
  raises itself (\<open>Exception\<close> with a message), the ones raised by dictionary and name
  lookup and by operations on a value of the wrong type, and whatever the HTTP library
  and the JSON decoder raise (\<open>LibraryError\<close>).
\<close>

datatype py_exception =
    Exception string
  | KeyError string
  | NameError string
  | TypeError string
  | ValueError string
  | IndexError string
  | LibraryError string

text \<open>\<open>str(e)\<close>, which is what \<open>print(e)\<close> shows. A \<open>KeyError\<close> shows the key quoted.\<close>

fun exception_message :: "py_exception \<Rightarrow> string" where
  "exception_message (Exception m) = m"
| "exception_message (KeyError k) = [CHR 0x27] @ k @ [CHR 0x27]"
| "exception_message (NameError m) = m"
| "exception_message (TypeError m) = m"
| "exception_message (ValueError m) = m"
| "exception_message (IndexError m) = m"
| "exception_message (LibraryError m) = m"

text \<open>\<open>str(i)\<close> for an integer: its decimal digits.\<close>

definition digit_char :: "nat \<Rightarrow> char" where
  "digit_char d = ''0123456789'' ! d"

fun str_nat :: "nat \<Rightarrow> string" where
  "str_nat n =
     (if n < 10 then [digit_char n]
      else str_nat (n div 10) @ [digit_char (n mod 10)])"

definition str_int :: "int \<Rightarrow> string" where
  "str_int i = (if i < 0 then CHR ''-'' # str_nat (nat (- i)) else str_nat (nat i))"

subsection \<open>Constants of the notebook\<close>

definition API_REQUEST_URL :: string where
  "API_REQUEST_URL = ''https://aqs.epa.gov/data/api''"

definition API_ACTION_LIST_CLASSES :: string where
  "API_ACTION_LIST_CLASSES = ''/list/classes?email={email}&key={key}''"

definition API_ACTION_LIST_SITES :: string where
  "API_ACTION_LIST_SITES =
     ''/list/sitesByCounty?email={email}&key={key}&state={state}&county={county}''"

definition API_ACTION_DAILY_SUMMARY_COUNTY :: string where
  "API_ACTION_DAILY_SUMMARY_COUNTY =
     ''/dailyData/byCounty?email={email}&key={key}&param={param}&bdate={begin_date}&edate={end_date}&state={state}&county={county}''"

text \<open>
  \<^verbatim>\<open>API_LATENCY_ASSUMED = 0.002\<close> and
  \<^verbatim>\<open>API_THROTTLE_WAIT = (1.0/100.0)-API_LATENCY_ASSUMED\<close>, in seconds (the argument of
  \<open>time.sleep\<close>).
\<close>

definition API_LATENCY_ASSUMED :: rat where
  "API_LATENCY_ASSUMED = 2 / 1000"

definition API_THROTTLE_WAIT :: rat where
  "API_THROTTLE_WAIT = (1 / 100) - API_LATENCY_ASSUMED"

definition AQI_PARAMS_PARTICULATES :: string where
  "AQI_PARAMS_PARTICULATES = ''81102,88101,88502''"

definition USERNAME :: string where
  "USERNAME = ''adts@uw.edu''"

definition APIKEY :: string where
  "APIKEY = ''greykit72''"

text \<open>\<^verbatim>\<open>CITY_LOCATIONS['Rapid City']['fips']\<close>.\<close>

definition RAPID_CITY_FIPS :: string where
  "RAPID_CITY_FIPS = ''46103''"

subsection \<open>Request templates and the store\<close>

type_synonym template = "string \<rightharpoonup> pyval"

type_synonym addr = nat

type_synonym heap = "addr \<Rightarrow> template"

text \<open>The dictionary literal bound to \<open>AQS_REQUEST_TEMPLATE\<close>.\<close>

definition AQS_REQUEST_TEMPLATE_literal :: template where
  "AQS_REQUEST_TEMPLATE_literal =
     [''email'' \<mapsto> PyStr '''', ''key'' \<mapsto> PyStr '''', ''state'' \<mapsto> PyStr '''',
      ''county'' \<mapsto> PyStr '''', ''begin_date'' \<mapsto> PyStr '''', ''end_date'' \<mapsto> PyStr '''',
      ''minlat'' \<mapsto> PyFloat 0, ''maxlat'' \<mapsto> PyFloat 0, ''minlon'' \<mapsto> PyFloat 0,
      ''maxlon'' \<mapsto> PyFloat 0, ''param'' \<mapsto> PyStr '''', ''pclass'' \<mapsto> PyStr '''']"

text \<open>
  The address of that one dictionary. Both functions have
  \<^verbatim>\<open>request_template = AQS_REQUEST_TEMPLATE\<close> as a default, evaluated once when the
  function is defined, so a call that omits the argument receives this address.
\<close>

definition AQS_REQUEST_TEMPLATE :: addr where
  "AQS_REQUEST_TEMPLATE = 0"

text \<open>The store once the constants cell has run.\<close>

definition initial_heap :: heap where
  "initial_heap = (\<lambda>_. Map.empty)(AQS_REQUEST_TEMPLATE := AQS_REQUEST_TEMPLATE_literal)"

text \<open>\<^verbatim>\<open>request_data = AQS_REQUEST_TEMPLATE.copy()\<close>: a new dictionary at a fresh address.\<close>

definition dict_copy :: "addr \<Rightarrow> addr \<Rightarrow> heap \<Rightarrow> heap" where
  "dict_copy src fresh h = h(fresh := h src)"

text \<open>\<^verbatim>\<open>d[k] = v\<close> on the dictionary at address \<open>a\<close>.\<close>

definition dict_set :: "addr \<Rightarrow> string \<Rightarrow> pyval \<Rightarrow> heap \<Rightarrow> heap" where
  "dict_set a k v h = h(a := (h a)(k \<mapsto> v))"

subsection \<open>Effects and the outside world\<close>

type_synonym headers = "(string \<times> string) list option"

datatype event =
    Sleep rat
  | HttpGet string headers
  | Print py_exception

text \<open>
  What the functions call and do not define: \<open>str.format\<close> on an endpoint action with
  the template as keyword arguments, \<open>requests.get\<close>, and \<open>response.json()\<close>. Each
  may raise.
\<close>

record 'r env =
  str_format :: "string \<Rightarrow> template \<Rightarrow> py_exception + string"
  requests_get :: "string \<Rightarrow> headers \<Rightarrow> py_exception + 'r"
  response_json :: "'r \<Rightarrow> py_exception + json"

record outcome =
  heap_after :: heap
  events :: "event list"
  result :: "py_exception + json"

subsection \<open>The two request functions\<close>

text \<open>
  \<^verbatim>\<open>if arg: request_template[field] = arg\<close>. The arguments default to \<open>None\<close>; a
  string argument is truthy when it is not empty.
\<close>

definition given :: "string option \<Rightarrow> bool" where
  "given arg = (case arg of None \<Rightarrow> False | Some s \<Rightarrow> s \<noteq> [])"

definition overlay :: "string \<Rightarrow> string option \<Rightarrow> template \<Rightarrow> template" where
  "overlay field arg t = (case arg of None \<Rightarrow> t | Some s \<Rightarrow> if s \<noteq> [] then t(field \<mapsto> PyStr s) else t)"

text \<open>
  \<^verbatim>\<open>if not request_template[field]: raise Exception(msg)\<close>. Reading a key the
  dictionary does not have raises \<open>KeyError\<close>.
\<close>

definition check_field :: "template \<Rightarrow> string \<Rightarrow> string \<Rightarrow> py_exception option" where
  "check_field t field msg =
     (case t field of
        None \<Rightarrow> Some (KeyError field)
      | Some v \<Rightarrow> if truthy v then None else Some (Exception msg))"

text \<open>A sequence of such statements: the first that raises ends the function.\<close>

fun first_raise :: "py_exception option list \<Rightarrow> py_exception option" where
  "first_raise [] = None"
| "first_raise (None # cs) = first_raise cs"
| "first_raise (Some e # cs) = Some e"

text \<open>
  The \<open>try\<close> block, the same text in both functions: sleep, GET, decode; any exception
  of the GET or the decode is printed and the value becomes \<open>None\<close>.
\<close>

definition make_request :: "'r env \<Rightarrow> string \<Rightarrow> headers \<Rightarrow> event list \<times> json" where
  "make_request env request_url hdrs =
     (let waited = (if API_THROTTLE_WAIT > 0 then [Sleep API_THROTTLE_WAIT] else [])
      in case requests_get env request_url hdrs of
           Inl e \<Rightarrow> (waited @ [HttpGet request_url hdrs, Print e], JNull)
         | Inr response \<Rightarrow>
             (case response_json env response of
                Inl e \<Rightarrow> (waited @ [HttpGet request_url hdrs, Print e], JNull)
              | Inr json_response \<Rightarrow> (waited @ [HttpGet request_url hdrs], json_response)))"

text \<open>
  The part after the overlay, again the same in both functions: the checks, the URL
  (composed outside the \<open>try\<close>, so an exception of \<open>format\<close> leaves the function),
  the request.
\<close>

definition checked_request ::
  "'r env \<Rightarrow> heap \<Rightarrow> template \<Rightarrow> py_exception option list \<Rightarrow> string \<Rightarrow> string \<Rightarrow> headers \<Rightarrow> outcome" where
  "checked_request env h t checks url action hdrs =
     (case first_raise checks of
        Some e \<Rightarrow> \<lparr>heap_after = h, events = [], result = Inl e\<rparr>
      | None \<Rightarrow>
          (case str_format env action t of
             Inl e \<Rightarrow> \<lparr>heap_after = h, events = [], result = Inl e\<rparr>
           | Inr path \<Rightarrow>
               (case make_request env (url @ path) hdrs of
                  (evs, json_response) \<Rightarrow>
                    \<lparr>heap_after = h, events = evs, result = Inr json_response\<rparr>)))"

record list_args =
  email_address :: "string option"
  key :: "string option"
  endpoint_url :: string
  endpoint_action :: string
  request_template :: addr
  headers :: headers

record daily_args = list_args +
  param :: "string option"
  begin_date :: "string option"
  end_date :: "string option"
  fips :: "string option"

text \<open>The parameter defaults of the two \<open>def\<close>s.\<close>

definition list_defaults :: list_args where
  "list_defaults =
     \<lparr>email_address = None, key = None, endpoint_url = API_REQUEST_URL,
      endpoint_action = API_ACTION_LIST_CLASSES, request_template = AQS_REQUEST_TEMPLATE,
      headers = None\<rparr>"

definition daily_defaults :: daily_args where
  "daily_defaults =
     \<lparr>email_address = None, key = None, endpoint_url = API_REQUEST_URL,
      endpoint_action = API_ACTION_DAILY_SUMMARY_COUNTY,
      request_template = AQS_REQUEST_TEMPLATE, headers = None,
      param = None, begin_date = None, end_date = None, fips = None\<rparr>"

definition list_merged :: "list_args \<Rightarrow> template \<Rightarrow> template" where
  "list_merged a t = overlay ''key'' (key a) (overlay ''email'' (email_address a) t)"

definition list_msg :: "string \<Rightarrow> string" where
  "list_msg what = ''Must supply '' @ what @ '' to call '' @ [CHR 0x27] @ ''request_list_info()'' @ [CHR 0x27]"

definition request_list_info :: "'r env \<Rightarrow> list_args \<Rightarrow> heap \<Rightarrow> outcome" where
  "request_list_info env a h =
     (let t = list_merged a (h (request_template a));
          h' = h(request_template a := t)
      in checked_request env h' t
           [check_field t ''email'' (list_msg ''an email address''),
            check_field t ''key'' (list_msg ''a key'')]
           (endpoint_url a) (endpoint_action a) (headers a))"

text \<open>
  \<^verbatim>\<open>if fips and len(fips)==5: request_template['state'] = fips[:2];
  request_template['county'] = fips[2:]\<close>
\<close>

definition overlay_fips :: "string option \<Rightarrow> template \<Rightarrow> template" where
  "overlay_fips arg t =
     (case arg of
        None \<Rightarrow> t
      | Some s \<Rightarrow>
          if s \<noteq> [] \<and> length s = 5
          then t(''state'' \<mapsto> PyStr (take 2 s), ''county'' \<mapsto> PyStr (drop 2 s))
          else t)"

text \<open>An argument that passes the test \<^verbatim>\<open>fips and len(fips)==5\<close>.\<close>

definition fips5 :: "string option \<Rightarrow> bool" where
  "fips5 arg = (case arg of None \<Rightarrow> False | Some s \<Rightarrow> length s = 5)"

definition daily_merged :: "daily_args \<Rightarrow> template \<Rightarrow> template" where
  "daily_merged a t =
     overlay_fips (fips a)
       (overlay ''end_date'' (end_date a)
         (overlay ''begin_date'' (begin_date a)
           (overlay ''param'' (param a)
             (overlay ''key'' (key a)
               (overlay ''email'' (email_address a) t)))))"

definition daily_msg :: "string \<Rightarrow> string" where
  "daily_msg what = ''Must supply '' @ what @ '' to call '' @ [CHR 0x27] @ ''request_daily_summary()'' @ [CHR 0x27]"

definition request_daily_summary :: "'r env \<Rightarrow> daily_args \<Rightarrow> heap \<Rightarrow> outcome" where
  "request_daily_summary env a h =
     (let t = daily_merged a (h (request_template a));
          h' = h(request_template a := t)
      in checked_request env h' t
           [check_field t ''email'' (daily_msg ''an email address''),
            check_field t ''key'' (daily_msg ''a key''),
            check_field t ''param'' (daily_msg ''param values''),
            check_field t ''begin_date'' (daily_msg ''a begin_date''),
            check_field t ''end_date'' (daily_msg ''an end_date'')]
           (endpoint_url a) (endpoint_action a) (headers a))"

subsection \<open>Reading a response\<close>

text \<open>\<^verbatim>\<open>x[k]\<close> with a string key, \<^verbatim>\<open>x[n]\<close> with an index, and \<^verbatim>\<open>for item in x\<close>.\<close>

fun subscript_key :: "json \<Rightarrow> string \<Rightarrow> py_exception + json" where
  "subscript_key (JObj kvs) k =
     (case map_of kvs k of None \<Rightarrow> Inl (KeyError k) | Some v \<Rightarrow> Inr v)"
| "subscript_key JNull k = Inl (TypeError ''NoneType object is not subscriptable'')"
| "subscript_key (JBool b) k = Inl (TypeError ''bool object is not subscriptable'')"
| "subscript_key (JNum r) k = Inl (TypeError ''number is not subscriptable'')"
| "subscript_key (JStr s) k = Inl (TypeError ''string indices must be integers'')"
| "subscript_key (JArr xs) k = Inl (TypeError ''list indices must be integers or slices'')"

fun subscript_index :: "json \<Rightarrow> nat \<Rightarrow> py_exception + json" where
  "subscript_index (JArr xs) n =
     (if n < length xs then Inr (xs ! n) else Inl (IndexError ''list index out of range''))"
| "subscript_index (JStr s) n =
     (if n < length s then Inr (JStr [s ! n]) else Inl (IndexError ''string index out of range''))"
| "subscript_index (JObj kvs) n = Inl (KeyError (str_nat n))"
| "subscript_index JNull n = Inl (TypeError ''NoneType object is not subscriptable'')"
| "subscript_index (JBool b) n = Inl (TypeError ''bool object is not subscriptable'')"
| "subscript_index (JNum r) n = Inl (TypeError ''number is not subscriptable'')"

fun iterate :: "json \<Rightarrow> py_exception + json list" where
  "iterate (JArr xs) = Inr xs"
| "iterate (JStr s) = Inr (map (\<lambda>c. JStr [c]) s)"
| "iterate (JObj kvs) = Inr (map (\<lambda>kv. JStr (fst kv)) kvs)"
| "iterate JNull = Inl (TypeError ''NoneType object is not iterable'')"
| "iterate (JBool b) = Inl (TypeError ''bool object is not iterable'')"
| "iterate (JNum r) = Inl (TypeError ''number is not iterable'')"

text \<open>
  \<^verbatim>\<open>response["Header"][0]['status']\<close>, which every caller of \<open>request_list_info\<close>
  in the notebook compares with \<open>"Success"\<close>.
\<close>

definition header_status :: "json \<Rightarrow> py_exception + json" where
  "header_status response =
     (case subscript_key response ''Header'' of
        Inl e \<Rightarrow> Inl e
      | Inr hdr \<Rightarrow>
          (case subscript_index hdr 0 of
             Inl e \<Rightarrow> Inl e
           | Inr h0 \<Rightarrow> subscript_key h0 ''status''))"

subsection \<open>The yearly aggregation cell\<close>

text \<open>
  The inner loop:
  \<^verbatim>\<open>
  for day in req["Data"]:
      if "aqi" in list(data.keys()):
          if day['aqi'] != None:
              aqis.append(day["aqi"])
  \<close>
  The name \<open>data\<close> is not assigned anywhere in the notebook: the test reads whatever the
  session has bound to it. \<open>data = None\<close> below is the name unbound, which raises
  \<open>NameError\<close>; \<open>Some ks\<close> is the name bound to an object whose \<open>keys()\<close> are
  \<open>ks\<close>.
\<close>

definition name_error_data :: py_exception where
  "name_error_data =
     NameError (''name '' @ [CHR 0x27] @ ''data'' @ [CHR 0x27] @ '' is not defined'')"

fun collect_aqis :: "string list option \<Rightarrow> json list \<Rightarrow> json list \<Rightarrow> py_exception + json list" where
  "collect_aqis data [] aqis = Inr aqis"
| "collect_aqis data (day # days) aqis =
     (case data of
        None \<Rightarrow> Inl name_error_data
      | Some ks \<Rightarrow>
          if ''aqi'' \<in> set ks then
            (case subscript_key day ''aqi'' of
               Inl e \<Rightarrow> Inl e
             | Inr v \<Rightarrow>
                 if v \<noteq> JNull then collect_aqis data days (aqis @ [v])
                 else collect_aqis data days aqis)
          else collect_aqis data days aqis)"

text \<open>\<open>np.mean\<close> of a non-empty list: numbers (and booleans, as 0 and 1) are averaged.\<close>

fun as_number :: "json \<Rightarrow> rat option" where
  "as_number (JNum r) = Some r"
| "as_number (JBool b) = Some (if b then 1 else 0)"
| "as_number JNull = None"
| "as_number (JStr s) = None"
| "as_number (JArr xs) = None"
| "as_number (JObj kvs) = None"

definition np_mean :: "json list \<Rightarrow> py_exception + rat" where
  "np_mean xs =
     (if list_all (\<lambda>x. as_number x \<noteq> None) xs
      then Inr (sum_list (map (\<lambda>x. the (as_number x)) xs) / of_nat (length xs))
      else Inl (TypeError ''cannot perform reduce with flexible type''))"

text \<open>
  One iteration of the outer loop after the request has returned \<open>req\<close>: the value
  appended to \<open>aqi\<close> for that year.
\<close>

definition yearly_value :: "string list option \<Rightarrow> json \<Rightarrow> py_exception + rat option" where
  "yearly_value data req =
     (case subscript_key req ''Data'' of
        Inl e \<Rightarrow> Inl e
      | Inr d \<Rightarrow>
          (case iterate d of
             Inl e \<Rightarrow> Inl e
           | Inr days \<Rightarrow>
               (case collect_aqis data days [] of
                  Inl e \<Rightarrow> Inl e
                | Inr aqis \<Rightarrow>
                    if length aqis > 0 then
                      (case np_mean aqis of Inl e \<Rightarrow> Inl e | Inr m \<Rightarrow> Inr (Some m))
                    else Inr None)))"

record loop_state =
  ls_heap :: heap
  ls_events :: "event list"
  aqi :: "rat option list"
  year :: "int list"

text \<open>
  The outer loop over the years. An exception ends the cell; the lists keep what was
  appended before it.
\<close>

fun year_loop ::
  "'r env \<Rightarrow> string list option \<Rightarrow> addr \<Rightarrow> int list \<Rightarrow> loop_state \<Rightarrow> loop_state \<times> py_exception option" where
  "year_loop env data request_data [] s = (s, None)"
| "year_loop env data request_data (i # rest) s =
     (let out = request_daily_summary env
                  (daily_defaults\<lparr>request_template := request_data,
                                  begin_date := Some (str_int i @ ''0501''),
                                  end_date := Some (str_int i @ ''1031'')\<rparr>)
                  (ls_heap s);
          s1 = s\<lparr>ls_heap := heap_after out, ls_events := ls_events s @ events out\<rparr>
      in case result out of
           Inl e \<Rightarrow> (s1, Some e)
         | Inr req \<Rightarrow>
             (case yearly_value data req of
                Inl e \<Rightarrow> (s1, Some e)
              | Inr v \<Rightarrow>
                  year_loop env data request_data rest
                    (s1\<lparr>aqi := aqi s1 @ [v], year := year s1 @ [i]\<rparr>)))"

text \<open>
  The whole cell: \<open>request_data\<close> is a copy of the shared template with the
  credentials, the county and the pollutant codes set; the loop runs over
  \<open>range(1963, 2024)\<close>.
\<close>

definition aggregation_cell ::
  "'r env \<Rightarrow> string list option \<Rightarrow> addr \<Rightarrow> heap \<Rightarrow> loop_state \<times> py_exception option" where
  "aggregation_cell env data request_data h =
     (let h1 = dict_copy AQS_REQUEST_TEMPLATE request_data h;
          h2 = dict_set request_data ''email'' (PyStr USERNAME) h1;
          h3 = dict_set request_data ''key'' (PyStr APIKEY) h2;
          h4 = dict_set request_data ''state'' (PyStr (take 2 RAPID_CITY_FIPS)) h3;
          h5 = dict_set request_data ''county'' (PyStr (drop 2 RAPID_CITY_FIPS)) h4;
          h6 = dict_set request_data ''param'' (PyStr AQI_PARAMS_PARTICULATES) h5
      in year_loop env data request_data [1963..2023]
           \<lparr>ls_heap = h6, ls_events = [], aqi = [], year = []\<rparr>)"

text \<open>
  \<^verbatim>\<open>df = pd.DataFrame({'aqi': aqi, 'year': year}); df = df[df.aqi > 0]\<close>: one row per
  list position, then the rows whose \<open>aqi\<close> compares greater than zero. A missing value
  (\<open>None\<close>, held as NaN) does not.
\<close>

definition DataFrame :: "rat option list \<Rightarrow> int list \<Rightarrow> (rat option \<times> int) list" where
  "DataFrame aqi_col year_col = zip aqi_col year_col"

definition aqi_positive :: "rat option \<times> int \<Rightarrow> bool" where
  "aqi_positive row = (case fst row of None \<Rightarrow> False | Some v \<Rightarrow> v > 0)"

definition final_frame :: "loop_state \<Rightarrow> (rat option \<times> int) list" where
  "final_frame s = filter aqi_positive (DataFrame (aqi s) (year s))"

subsection \<open>A concrete \<open>str.format\<close> for the notebook's endpoint actions\<close>

text \<open>
  The endpoint actions of the notebook contain only placeholders of the form
  \<open>{name}\<close>. \<open>format_fields\<close> substitutes those from a template: a name the template
  lacks raises \<open>KeyError\<close>, an unclosed brace raises \<open>ValueError\<close>. Strings are
  inserted as they are, \<open>None\<close> as \<open>None\<close>, and floats through \<open>float_str\<close>, the
  rendering of a float, which is left to the caller. The scanner carries the name read
  so far (\<open>None\<close> outside braces).
\<close>

fun str_pyval :: "(rat \<Rightarrow> string) \<Rightarrow> pyval \<Rightarrow> string" where
  "str_pyval float_str PyNone = ''None''"
| "str_pyval float_str (PyStr s) = s"
| "str_pyval float_str (PyFloat r) = float_str r"

fun format_scan ::
  "(rat \<Rightarrow> string) \<Rightarrow> template \<Rightarrow> string option \<Rightarrow> string \<Rightarrow> py_exception + string" where
  "format_scan float_str t None [] = Inr []"
| "format_scan float_str t (Some name) [] =
     Inl (ValueError ''expected } before end of string'')"
| "format_scan float_str t None (c # cs) =
     (if c = CHR ''{'' then format_scan float_str t (Some []) cs
      else (case format_scan float_str t None cs of
              Inl e \<Rightarrow> Inl e
            | Inr out \<Rightarrow> Inr (c # out)))"
| "format_scan float_str t (Some name) (c # cs) =
     (if c = CHR ''}'' then
        (case t name of
           None \<Rightarrow> Inl (KeyError name)
         | Some v \<Rightarrow>
             (case format_scan float_str t None cs of
                Inl e \<Rightarrow> Inl e
              | Inr out \<Rightarrow> Inr (str_pyval float_str v @ out)))
      else format_scan float_str t (Some (name @ [c])) cs)"

text \<open>The rendering of a float without fractional part, as in \<open>str(0.0)\<close>.\<close>

definition whole_float_str :: "rat \<Rightarrow> string" where
  "whole_float_str r = str_int \<lfloor>r\<rfloor> @ ''.0''"

definition format_fields :: "(rat \<Rightarrow> string) \<Rightarrow> string \<Rightarrow> template \<Rightarrow> py_exception + string" where
  "format_fields float_str action t = format_scan float_str t None action"

subsection \<open>Transport stubs\<close>

text \<open>
  Three outside worlds for running the functions on concrete inputs. In each the
  response object is the URL that was requested. \<open>fixture_env\<close> answers every GET with
  the same document, \<open>offline_env\<close> fails every GET, \<open>garbled_env\<close> answers with a
  body that does not decode.
\<close>

definition fixture_env :: "json \<Rightarrow> string env" where
  "fixture_env doc =
     \<lparr>str_format = format_fields whole_float_str,
      requests_get = (\<lambda>url hdrs. Inr url),
      response_json = (\<lambda>response. Inr doc)\<rparr>"

definition offline_env :: "string env" where
  "offline_env =
     \<lparr>str_format = format_fields whole_float_str,
      requests_get = (\<lambda>url hdrs. Inl (LibraryError ''ConnectionError'')),
      response_json = (\<lambda>response. Inr JNull)\<rparr>"

definition garbled_env :: "string env" where
  "garbled_env =
     \<lparr>str_format = format_fields whole_float_str,
      requests_get = (\<lambda>url hdrs. Inr url),
      response_json = (\<lambda>response. Inl (LibraryError ''JSONDecodeError''))\<rparr>"

subsection \<open>Required fields\<close>

text \<open>
  A field is lacking in a template when the check \<^verbatim>\<open>if not request_template[field]\<close>
  does not let the call continue: the value is falsy (the empty string of the initial
  template, \<open>None\<close>, zero), or the key is not there at all.
\<close>

definition lacks :: "template \<Rightarrow> string \<Rightarrow> bool" where
  "lacks t f = (case t f of None \<Rightarrow> True | Some v \<Rightarrow> \<not> truthy v)"

text \<open>
  The fields each function checks, in the order of the checks, with the message of the
  exception raised for each.
\<close>

definition list_required :: "(string \<times> string) list" where
  "list_required = [(''email'', list_msg ''an email address''), (''key'', list_msg ''a key'')]"

definition daily_required :: "(string \<times> string) list" where
  "daily_required =
     [(''email'', daily_msg ''an email address''), (''key'', daily_msg ''a key''),
      (''param'', daily_msg ''param values''), (''begin_date'', daily_msg ''a begin_date''),
      (''end_date'', daily_msg ''an end_date'')]"

subsection \<open>Example calls\<close>

text \<open>
  A list request and a daily-summary request as the notebook makes them (the
  credentials, the particulate codes, the fire season of 1985, the county of Rapid City),
  here passed as arguments on the shared template, and the URLs they compose.
\<close>

definition list_example :: list_args where
  "list_example = list_defaults\<lparr>email_address := Some USERNAME, key := Some APIKEY\<rparr>"

definition daily_example :: daily_args where
  "daily_example =
     daily_defaults\<lparr>email_address := Some USERNAME, key := Some APIKEY,
       param := Some AQI_PARAMS_PARTICULATES, begin_date := Some ''19850501'',
       end_date := Some ''19851031'', fips := Some RAPID_CITY_FIPS\<rparr>"

definition list_example_url :: string where
  "list_example_url = ''https://aqs.epa.gov/data/api/list/classes?email=adts@uw.edu&key=greykit72''"

definition daily_example_url :: string where
  "daily_example_url =
     ''https://aqs.epa.gov/data/api/dailyData/byCounty?email=adts@uw.edu&key=greykit72&param=81102,88101,88502&bdate=19850501&edate=19851031&state=46&county=103''"

text \<open>A well-formed answer of the API that reports a failure.\<close>

definition failed_document :: json where
  "failed_document =
     JObj [(''Header'', JArr [JObj [(''status'', JStr ''Failed''),
                                    (''error'', JArr [JStr ''Invalid key'']) ]]),
           (''Data'', JArr [])]"

subsection \<open>Answers of the API and a year-by-year stub\<close>

text \<open>
  Documents for the daily-summary request: the three records of the specification's
  example (aqi 5, null, 15), a season without records, a season whose one record has
  aqi 0, and one whose one record has aqi 10.
\<close>

definition spec_example_document :: json where
  "spec_example_document =
     JObj [(''Header'', JArr [JObj [(''status'', JStr ''Success'')]]),
           (''Data'', JArr [JObj [(''aqi'', JNum 5)], JObj [(''aqi'', JNull)], JObj [(''aqi'', JNum 15)]])]"

definition empty_document :: json where
  "empty_document =
     JObj [(''Header'', JArr [JObj [(''status'', JStr ''No data matched your selection'')]]),
           (''Data'', JArr [])]"

definition zero_document :: json where
  "zero_document =
     JObj [(''Header'', JArr [JObj [(''status'', JStr ''Success'')]]),
           (''Data'', JArr [JObj [(''aqi'', JNum 0)]])]"

definition ten_document :: json where
  "ten_document =
     JObj [(''Header'', JArr [JObj [(''status'', JStr ''Success'')]]),
           (''Data'', JArr [JObj [(''aqi'', JNum 10)]])]"

text \<open>A transport that answers by URL from a table, and with no data for any other URL.\<close>

definition table_env :: "(string \<times> json) list \<Rightarrow> string env" where
  "table_env table =
     \<lparr>str_format = format_fields whole_float_str,
      requests_get = (\<lambda>url hdrs. Inr url),
      response_json = (\<lambda>response.
         Inr (case map_of table response of None \<Rightarrow> empty_document | Some doc \<Rightarrow> doc))\<rparr>"

text \<open>
  The request of the aggregation cell for the year \<open>i\<close>: its arguments, and the URL it
  composes from the template the cell sets up.
\<close>

definition season_args :: "addr \<Rightarrow> int \<Rightarrow> daily_args" where
  "season_args request_data i =
     daily_defaults\<lparr>request_template := request_data,
                     begin_date := Some (str_int i @ ''0501''),
                     end_date := Some (str_int i @ ''1031'')\<rparr>"

definition season_url :: "int \<Rightarrow> string" where
  "season_url i =
     API_REQUEST_URL @ ''/dailyData/byCounty?email=adts@uw.edu&key=greykit72&param=81102,88101,88502&bdate=''
       @ str_int i @ ''0501&edate='' @ str_int i @ ''1031&state=46&county=103''"

text \<open>The fields the cell sets in \<open>request_data\<close> before the loop.\<close>

definition cell_template :: "template \<Rightarrow> bool" where
  "cell_template t =
     (t ''email'' = Some (PyStr USERNAME) \<and> t ''key'' = Some (PyStr APIKEY)
      \<and> t ''param'' = Some (PyStr AQI_PARAMS_PARTICULATES)
      \<and> t ''state'' = Some (PyStr ''46'') \<and> t ''county'' = Some (PyStr ''103''))"

text \<open>
  An API that has one record with aqi 0 for the season of 1985, one record with aqi 10
  for 1986 and nothing else, and the yearly values this gives.
\<close>

definition zero_year_table :: "(string \<times> json) list" where
  "zero_year_table = [(season_url 1985, zero_document), (season_url 1986, ten_document)]"

definition zero_year_value :: "int \<Rightarrow> rat option" where
  "zero_year_value i = (if i = 1985 then Some 0 else if i = 1986 then Some 10 else None)"

text \<open>
  The non-null "aqi" fields of a list of daily records, in the words of the
  specification, for comparison with \<open>collect_aqis\<close>.
\<close>

fun aqi_of :: "json \<Rightarrow> json option" where
  "aqi_of (JObj kvs) = map_of kvs ''aqi''"
| "aqi_of JNull = None"
| "aqi_of (JBool b) = None"
| "aqi_of (JNum r) = None"
| "aqi_of (JStr s) = None"
| "aqi_of (JArr xs) = None"

definition non_null_aqis :: "json list \<Rightarrow> json list" where
  "non_null_aqis days = filter (\<lambda>v. v \<noteq> JNull) (List.map_filter aqi_of days)"

section \<open>Properties\<close>

subsection \<open>What a call does to the store\<close>

lemma heap_after_checked_request:
  "heap_after (checked_request env h t checks url action hdrs) = h"
  by (simp add: checked_request_def split: option.split sum.split prod.split)

lemma heap_after_request_list_info:
  "heap_after (request_list_info env a h) =
     h(request_template a := list_merged a (h (request_template a)))"
  by (simp add: request_list_info_def Let_def heap_after_checked_request)

lemma heap_after_request_daily_summary:
  "heap_after (request_daily_summary env a h) =
     h(request_template a := daily_merged a (h (request_template a)))"
  by (simp add: request_daily_summary_def Let_def heap_after_checked_request)

lemma overlay_other: "g \<noteq> f \<Longrightarrow> overlay f arg t g = t g"
  by (simp add: overlay_def split: option.split)

lemma overlay_not_given: "\<not> given arg \<Longrightarrow> overlay f arg t = t"
  by (cases arg) (simp_all add: overlay_def given_def)

lemma overlay_given: "given arg \<Longrightarrow> overlay f arg t f = map_option PyStr arg"
  by (auto simp add: overlay_def given_def split: option.split)

lemma overlay_fips_other:
  "g \<noteq> ''state'' \<Longrightarrow> g \<noteq> ''county'' \<Longrightarrow> overlay_fips arg t g = t g"
  by (simp add: overlay_fips_def split: option.split)

lemma overlay_fips_five:
  "length s = 5 \<Longrightarrow>
     overlay_fips (Some s) t = t(''state'' \<mapsto> PyStr (take 2 s), ''county'' \<mapsto> PyStr (drop 2 s))"
  by (auto simp add: overlay_fips_def)

lemma overlay_fips_not_five:
  "length s \<noteq> 5 \<Longrightarrow> overlay_fips (Some s) t = t"
  by (simp add: overlay_fips_def)

subsection \<open>The FIPS argument\<close>

text \<open>
  Claim C4. A call of \<open>request_daily_summary\<close> with a FIPS string of length exactly 5
  leaves the first two characters in the template's \<open>state\<close> field and the remaining
  three in its \<open>county\<close> field, whatever else the call does.
\<close>

theorem fips_of_length_five_is_split:
  assumes "fips a = Some s" and "length s = 5"
  shows "heap_after (request_daily_summary env a h) (request_template a) ''state''
           = Some (PyStr (take 2 s))
       \<and> heap_after (request_daily_summary env a h) (request_template a) ''county''
           = Some (PyStr (drop 2 s))
       \<and> length (take 2 s) = 2 \<and> length (drop 2 s) = 3"
  using assms
  by (simp add: heap_after_request_daily_summary daily_merged_def overlay_fips_five)

text \<open>The county of Rapid City: "46103" gives state "46" and county "103".\<close>

theorem fips_of_length_five_is_split_witness:
  "fips (daily_defaults\<lparr>fips := Some ''46103''\<rparr>) = Some ''46103'' \<and> length ''46103'' = 5
   \<and> heap_after (request_daily_summary offline_env (daily_defaults\<lparr>fips := Some ''46103''\<rparr>) initial_heap)
        AQS_REQUEST_TEMPLATE ''state'' = Some (PyStr ''46'')
   \<and> heap_after (request_daily_summary offline_env (daily_defaults\<lparr>fips := Some ''46103''\<rparr>) initial_heap)
        AQS_REQUEST_TEMPLATE ''county'' = Some (PyStr ''103'')"
  using fips_of_length_five_is_split [of "daily_defaults\<lparr>fips := Some ''46103''\<rparr>" "''46103''" offline_env initial_heap]
  by (simp add: daily_defaults_def)

text \<open>
  Claim C9. A call of \<open>request_daily_summary\<close> with a FIPS string whose length is not
  5 (the empty string included) behaves in every respect as the call without the FIPS
  argument: no exception comes from it, and the template's \<open>state\<close> and \<open>county\<close>
  fields keep their values.
\<close>

theorem fips_of_other_length_is_ignored:
  assumes "fips a = Some s" and "length s \<noteq> 5"
  shows "request_daily_summary env a h = request_daily_summary env (a\<lparr>fips := None\<rparr>) h
       \<and> heap_after (request_daily_summary env a h) (request_template a) ''state''
           = h (request_template a) ''state''
       \<and> heap_after (request_daily_summary env a h) (request_template a) ''county''
           = h (request_template a) ''county''"
proof -
  have merged: "daily_merged a t = daily_merged (a\<lparr>fips := None\<rparr>) t" for t
    using assms by (simp add: daily_merged_def overlay_fips_not_five overlay_fips_def)
  have same: "request_daily_summary env a h = request_daily_summary env (a\<lparr>fips := None\<rparr>) h"
    by (simp add: request_daily_summary_def merged)
  have kept: "daily_merged a t f = t f" if "f = ''state'' \<or> f = ''county''" for t f
    using that assms
    by (auto simp add: daily_merged_def overlay_fips_not_five overlay_other)
  show ?thesis
    by (intro conjI) (rule same, simp_all add: heap_after_request_daily_summary kept)
qed

text \<open>A three-character FIPS on the initial template.\<close>

theorem fips_of_other_length_is_ignored_witness:
  "fips (daily_defaults\<lparr>fips := Some ''461''\<rparr>) = Some ''461'' \<and> length ''461'' \<noteq> 5
   \<and> request_daily_summary offline_env (daily_defaults\<lparr>fips := Some ''461''\<rparr>) initial_heap
       = request_daily_summary offline_env (daily_defaults\<lparr>fips := Some ''461'', fips := None\<rparr>) initial_heap
   \<and> heap_after (request_daily_summary offline_env (daily_defaults\<lparr>fips := Some ''461''\<rparr>) initial_heap)
        AQS_REQUEST_TEMPLATE ''state'' = Some (PyStr [])
   \<and> heap_after (request_daily_summary offline_env (daily_defaults\<lparr>fips := Some ''461''\<rparr>) initial_heap)
        AQS_REQUEST_TEMPLATE ''county'' = Some (PyStr [])"
  using fips_of_other_length_is_ignored [of "daily_defaults\<lparr>fips := Some ''461''\<rparr>" "''461''" offline_env initial_heap]
  by (simp add: daily_defaults_def initial_heap_def AQS_REQUEST_TEMPLATE_literal_def
        heap_after_request_daily_summary daily_merged_def overlay_def overlay_fips_def)

lemma overlay_fips_not_fips5: "\<not> fips5 arg \<Longrightarrow> overlay_fips arg t = t"
  by (cases arg) (simp_all add: overlay_fips_def fips5_def)

lemma overlay_kept: "g \<noteq> f \<or> \<not> given arg \<Longrightarrow> overlay f arg t g = t g"
  by (auto simp add: overlay_other overlay_not_given)

lemma overlay_fips_kept:
  "(g \<noteq> ''state'' \<and> g \<noteq> ''county'') \<or> \<not> fips5 arg \<Longrightarrow> overlay_fips arg t g = t g"
  by (auto simp add: overlay_fips_other overlay_fips_not_fips5)

text \<open>
  Claim C7. After a call of either function, every field of the template the call was
  given for which the caller passed no non-empty argument has the value it had before;
  for \<open>request_daily_summary\<close> the fields \<open>state\<close> and \<open>county\<close> are kept
  unless a five-character FIPS was passed. No other dictionary of the store changes.
  This holds whether the call returns or raises.
\<close>

theorem unspecified_fields_keep_their_values:
  "(\<forall>f. (f = ''email'' \<longrightarrow> \<not> given (email_address a))
        \<and> (f = ''key'' \<longrightarrow> \<not> given (key a))
      \<longrightarrow> heap_after (request_list_info env a h) (request_template a) f
            = h (request_template a) f)
   \<and> (\<forall>f. (f = ''email'' \<longrightarrow> \<not> given (email_address b))
        \<and> (f = ''key'' \<longrightarrow> \<not> given (key b))
        \<and> (f = ''param'' \<longrightarrow> \<not> given (param b))
        \<and> (f = ''begin_date'' \<longrightarrow> \<not> given (begin_date b))
        \<and> (f = ''end_date'' \<longrightarrow> \<not> given (end_date b))
        \<and> (f = ''state'' \<or> f = ''county'' \<longrightarrow> \<not> fips5 (fips b))
      \<longrightarrow> heap_after (request_daily_summary env b h) (request_template b) f
            = h (request_template b) f)
   \<and> (\<forall>other. other \<noteq> request_template a
      \<longrightarrow> heap_after (request_list_info env a h) other = h other)
   \<and> (\<forall>other. other \<noteq> request_template b
      \<longrightarrow> heap_after (request_daily_summary env b h) other = h other)"
proof (intro conjI allI impI)
  fix f
  assume "(f = ''email'' \<longrightarrow> \<not> given (email_address a)) \<and> (f = ''key'' \<longrightarrow> \<not> given (key a))"
  then show "heap_after (request_list_info env a h) (request_template a) f
              = h (request_template a) f"
    by (simp add: heap_after_request_list_info list_merged_def overlay_kept)
next
  fix f
  assume "(f = ''email'' \<longrightarrow> \<not> given (email_address b))
        \<and> (f = ''key'' \<longrightarrow> \<not> given (key b))
        \<and> (f = ''param'' \<longrightarrow> \<not> given (param b))
        \<and> (f = ''begin_date'' \<longrightarrow> \<not> given (begin_date b))
        \<and> (f = ''end_date'' \<longrightarrow> \<not> given (end_date b))
        \<and> (f = ''state'' \<or> f = ''county'' \<longrightarrow> \<not> fips5 (fips b))"
  then have nf: "(f \<noteq> ''state'' \<and> f \<noteq> ''county'') \<or> \<not> fips5 (fips b)"
    and nd: "f \<noteq> ''end_date'' \<or> \<not> given (end_date b)"
    and nb: "f \<noteq> ''begin_date'' \<or> \<not> given (begin_date b)"
    and np: "f \<noteq> ''param'' \<or> \<not> given (param b)"
    and nk: "f \<noteq> ''key'' \<or> \<not> given (key b)"
    and ne: "f \<noteq> ''email'' \<or> \<not> given (email_address b)"
    by auto
  have "daily_merged b t f = t f" for t
    by (simp add: daily_merged_def overlay_fips_kept [OF nf] overlay_kept [OF nd]
          overlay_kept [OF nb] overlay_kept [OF np] overlay_kept [OF nk] overlay_kept [OF ne])
  then show "heap_after (request_daily_summary env b h) (request_template b) f
              = h (request_template b) f"
    by (simp add: heap_after_request_daily_summary)
next
  fix other
  assume "other \<noteq> request_template a"
  then show "heap_after (request_list_info env a h) other = h other"
    by (simp add: heap_after_request_list_info)
next
  fix other
  assume "other \<noteq> request_template b"
  then show "heap_after (request_daily_summary env b h) other = h other"
    by (simp add: heap_after_request_daily_summary)
qed


text \<open>
  Calls that pass an email address (and a FIPS): \<open>key\<close> and \<open>param\<close>, which were not
  passed, are as before, and so is the dictionary at another address.
\<close>

theorem unspecified_fields_keep_their_values_witness:
  "heap_after (request_list_info offline_env (list_defaults\<lparr>email_address := Some ''a@b.org''\<rparr>) initial_heap)
      AQS_REQUEST_TEMPLATE ''key'' = initial_heap AQS_REQUEST_TEMPLATE ''key''
   \<and> heap_after (request_daily_summary offline_env
        (daily_defaults\<lparr>email_address := Some ''a@b.org'', fips := Some ''46103''\<rparr>) initial_heap)
      AQS_REQUEST_TEMPLATE ''param'' = initial_heap AQS_REQUEST_TEMPLATE ''param''
   \<and> heap_after (request_list_info offline_env (list_defaults\<lparr>email_address := Some ''a@b.org''\<rparr>) initial_heap)
      (Suc AQS_REQUEST_TEMPLATE) = initial_heap (Suc AQS_REQUEST_TEMPLATE)
   \<and> heap_after (request_daily_summary offline_env
        (daily_defaults\<lparr>email_address := Some ''a@b.org'', fips := Some ''46103''\<rparr>) initial_heap)
      (Suc AQS_REQUEST_TEMPLATE) = initial_heap (Suc AQS_REQUEST_TEMPLATE)"
proof -
  let ?a = "list_defaults\<lparr>email_address := Some ''a@b.org''\<rparr>"
  let ?b = "daily_defaults\<lparr>email_address := Some ''a@b.org'', fips := Some ''46103''\<rparr>"
  note frame = unspecified_fields_keep_their_values [of ?a offline_env initial_heap ?b]
  have ta: "request_template ?a = AQS_REQUEST_TEMPLATE"
    and tb: "request_template ?b = AQS_REQUEST_TEMPLATE"
    by (simp_all add: list_defaults_def daily_defaults_def)
  have ka: "\<not> given (key ?a)" and pb: "\<not> given (param ?b)"
    by (simp_all add: list_defaults_def daily_defaults_def given_def)
  from frame have "heap_after (request_list_info offline_env ?a initial_heap) (request_template ?a) ''key''
      = initial_heap (request_template ?a) ''key''"
    using ka by auto
  moreover from frame have "heap_after (request_daily_summary offline_env ?b initial_heap) (request_template ?b) ''param''
      = initial_heap (request_template ?b) ''param''"
    using pb by auto
  moreover from frame have "heap_after (request_list_info offline_env ?a initial_heap) (Suc AQS_REQUEST_TEMPLATE)
      = initial_heap (Suc AQS_REQUEST_TEMPLATE)"
    using ta by auto
  moreover from frame have "heap_after (request_daily_summary offline_env ?b initial_heap) (Suc AQS_REQUEST_TEMPLATE)
      = initial_heap (Suc AQS_REQUEST_TEMPLATE)"
    using tb by auto
  ultimately show ?thesis
    using ta tb by simp
qed

subsection \<open>Validation\<close>

lemma check_field_lacks:
  "lacks t f \<Longrightarrow> check_field t f msg = Some (if t f = None then KeyError f else Exception msg)"
  by (auto simp add: lacks_def check_field_def split: option.splits)

lemma check_field_has: "\<not> lacks t f \<Longrightarrow> check_field t f msg = None"
  by (auto simp add: lacks_def check_field_def split: option.splits)

lemma first_raise_checks:
  assumes "\<exists>fm \<in> set fms. lacks t (fst fm)"
  shows "\<exists>fm \<in> set fms. lacks t (fst fm) \<and>
           first_raise (map (\<lambda>fm. check_field t (fst fm) (snd fm)) fms)
             = Some (if t (fst fm) = None then KeyError (fst fm) else Exception (snd fm))"
  using assms
proof (induction fms)
  case Nil
  then show ?case by simp
next
  case (Cons fm fms)
  show ?case
  proof (cases "lacks t (fst fm)")
    case True
    then show ?thesis by (simp add: check_field_lacks)
  next
    case False
    with Cons.prems have "\<exists>fm \<in> set fms. lacks t (fst fm)" by auto
    from Cons.IH [OF this] False show ?thesis
      by (auto simp add: check_field_has)
  qed
qed

lemma checked_request_raises:
  "first_raise checks = Some e \<Longrightarrow>
     checked_request env h t checks url action hdrs = \<lparr>heap_after = h, events = [], result = Inl e\<rparr>"
  by (simp add: checked_request_def)

lemma list_required_named: "\<forall>fm \<in> set list_required. sublist (fst fm) (snd fm)"
  by code_simp

lemma daily_required_named: "\<forall>fm \<in> set daily_required. sublist (fst fm) (snd fm)"
  by code_simp

lemma key_error_named: "sublist f (exception_message (KeyError f))"
  unfolding exception_message.simps by (rule sublist_appendI)

lemma raised_names_field:
  "sublist f m \<Longrightarrow> sublist f (exception_message (if c then KeyError f else Exception m))"
  using key_error_named by simp


lemma list_checks:
  "[check_field t ''email'' (list_msg ''an email address''), check_field t ''key'' (list_msg ''a key'')]
     = map (\<lambda>fm. check_field t (fst fm) (snd fm)) list_required"
  by (simp add: list_required_def)

lemma daily_checks:
  "[check_field t ''email'' (daily_msg ''an email address''),
    check_field t ''key'' (daily_msg ''a key''),
    check_field t ''param'' (daily_msg ''param values''),
    check_field t ''begin_date'' (daily_msg ''a begin_date''),
    check_field t ''end_date'' (daily_msg ''an end_date'')]
     = map (\<lambda>fm. check_field t (fst fm) (snd fm)) daily_required"
  by (simp add: daily_required_def)

lemma required_field_raises:
  assumes lack: "\<exists>fm \<in> set fms. lacks t (fst fm)"
      and named: "\<forall>fm \<in> set fms. sublist (fst fm) (snd fm)"
  shows "\<exists>f e. f \<in> fst ` set fms \<and> lacks t f \<and> sublist f (exception_message e)
           \<and> checked_request env h t (map (\<lambda>fm. check_field t (fst fm) (snd fm)) fms) url action hdrs
               = \<lparr>heap_after = h, events = [], result = Inl e\<rparr>"
proof -
  from first_raise_checks [OF lack] obtain fm where fm: "fm \<in> set fms" "lacks t (fst fm)"
    and raised: "first_raise (map (\<lambda>fm. check_field t (fst fm) (snd fm)) fms)
               = Some (if t (fst fm) = None then KeyError (fst fm) else Exception (snd fm))"
    by blast
  let ?e = "if t (fst fm) = None then KeyError (fst fm) else Exception (snd fm)"
  from named fm have named_e: "sublist (fst fm) (exception_message ?e)"
    by (intro raised_names_field) blast
  have out: "checked_request env h t (map (\<lambda>fm. check_field t (fst fm) (snd fm)) fms) url action hdrs
               = \<lparr>heap_after = h, events = [], result = Inl ?e\<rparr>"
    by (rule checked_request_raises [OF raised])
  from fm(1) have "fst fm \<in> fst ` set fms"
    by (rule imageI)
  with fm(2) named_e out show ?thesis
    by (intro exI [of _ "fst fm"] exI [of _ ?e] conjI)
qed

lemma list_fields: "fst ` set list_required = {''email'', ''key''}"
  by (simp add: list_required_def)

lemma daily_fields:
  "fst ` set daily_required = {''email'', ''key'', ''param'', ''begin_date'', ''end_date''}"
  by (simp add: daily_required_def)

text \<open>
  Claim C2. When, after the arguments have been merged into the template, \<open>email\<close> or
  \<open>key\<close> is lacking (for \<open>request_list_info\<close>), or one of \<open>email\<close>, \<open>key\<close>,
  \<open>param\<close>, \<open>begin_date\<close>, \<open>end_date\<close> is (for \<open>request_daily_summary\<close>), the
  call raises an exception whose message contains the name of a lacking field, and it
  has performed no effect at all: no sleep, no GET, nothing printed.
\<close>

theorem missing_field_raises_before_any_io:
  "(lacks (list_merged a (h (request_template a))) ''email''
      \<or> lacks (list_merged a (h (request_template a))) ''key''
    \<longrightarrow> (\<exists>f e. f \<in> {''email'', ''key''}
           \<and> lacks (list_merged a (h (request_template a))) f
           \<and> result (request_list_info env a h) = Inl e
           \<and> sublist f (exception_message e)
           \<and> events (request_list_info env a h) = []))
   \<and> (lacks (daily_merged b (h (request_template b))) ''email''
      \<or> lacks (daily_merged b (h (request_template b))) ''key''
      \<or> lacks (daily_merged b (h (request_template b))) ''param''
      \<or> lacks (daily_merged b (h (request_template b))) ''begin_date''
      \<or> lacks (daily_merged b (h (request_template b))) ''end_date''
    \<longrightarrow> (\<exists>f e. f \<in> {''email'', ''key'', ''param'', ''begin_date'', ''end_date''}
           \<and> lacks (daily_merged b (h (request_template b))) f
           \<and> result (request_daily_summary env b h) = Inl e
           \<and> sublist f (exception_message e)
           \<and> events (request_daily_summary env b h) = []))"
proof (intro conjI impI)
  let ?t = "list_merged a (h (request_template a))"
  let ?out = "request_list_info env a h"
  assume "lacks ?t ''email'' \<or> lacks ?t ''key''"
  then have "\<exists>fm \<in> set list_required. lacks ?t (fst fm)"
    by (simp add: list_required_def)
  from required_field_raises [OF this list_required_named,
      of env "h(request_template a := ?t)" "endpoint_url a" "endpoint_action a" "headers a"]
  obtain f e where f: "f \<in> fst ` set list_required" "lacks ?t f" "sublist f (exception_message e)"
    and out: "?out = \<lparr>heap_after = h(request_template a := ?t), events = [], result = Inl e\<rparr>"
    unfolding request_list_info_def Let_def list_checks by (elim exE conjE)
  from f(1) have "f \<in> {''email'', ''key''}"
    by (simp add: list_fields)
  with f(2,3) out
  show "\<exists>f e. f \<in> {''email'', ''key''} \<and> lacks ?t f
           \<and> result ?out = Inl e
           \<and> sublist f (exception_message e)
           \<and> events ?out = []"
    by (intro exI [of _ f] exI [of _ e]) simp
next
  let ?t = "daily_merged b (h (request_template b))"
  let ?out = "request_daily_summary env b h"
  assume "lacks ?t ''email'' \<or> lacks ?t ''key'' \<or> lacks ?t ''param''
      \<or> lacks ?t ''begin_date'' \<or> lacks ?t ''end_date''"
  then have "\<exists>fm \<in> set daily_required. lacks ?t (fst fm)"
    by (simp add: daily_required_def)
  from required_field_raises [OF this daily_required_named,
      of env "h(request_template b := ?t)" "endpoint_url b" "endpoint_action b" "headers b"]
  obtain f e where f: "f \<in> fst ` set daily_required" "lacks ?t f" "sublist f (exception_message e)"
    and out: "?out = \<lparr>heap_after = h(request_template b := ?t), events = [], result = Inl e\<rparr>"
    unfolding request_daily_summary_def Let_def daily_checks by (elim exE conjE)
  from f(1) have "f \<in> {''email'', ''key'', ''param'', ''begin_date'', ''end_date''}"
    by (simp add: daily_fields)
  with f(2,3) out
  show "\<exists>f e. f \<in> {''email'', ''key'', ''param'', ''begin_date'', ''end_date''} \<and> lacks ?t f
           \<and> result ?out = Inl e
           \<and> sublist f (exception_message e)
           \<and> events ?out = []"
    by (intro exI [of _ f] exI [of _ e]) simp
qed


text \<open>
  On the initial template: a list request without arguments lacks \<open>email\<close>; a daily
  request with credentials only lacks \<open>param\<close>.
\<close>

theorem missing_field_raises_before_any_io_witness:
  "lacks (list_merged list_defaults (initial_heap (request_template list_defaults))) ''email''
   \<and> (\<exists>f e. f \<in> {''email'', ''key''}
         \<and> lacks (list_merged list_defaults (initial_heap (request_template list_defaults))) f
         \<and> result (request_list_info offline_env list_defaults initial_heap) = Inl e
         \<and> sublist f (exception_message e)
         \<and> events (request_list_info offline_env list_defaults initial_heap) = [])
   \<and> lacks (daily_merged (daily_defaults\<lparr>email_address := Some USERNAME, key := Some APIKEY\<rparr>)
         (initial_heap (request_template daily_defaults))) ''param''
   \<and> (\<exists>f e. f \<in> {''email'', ''key'', ''param'', ''begin_date'', ''end_date''}
         \<and> lacks (daily_merged (daily_defaults\<lparr>email_address := Some USERNAME, key := Some APIKEY\<rparr>)
               (initial_heap (request_template daily_defaults))) f
         \<and> result (request_daily_summary offline_env
               (daily_defaults\<lparr>email_address := Some USERNAME, key := Some APIKEY\<rparr>) initial_heap) = Inl e
         \<and> sublist f (exception_message e)
         \<and> events (request_daily_summary offline_env
               (daily_defaults\<lparr>email_address := Some USERNAME, key := Some APIKEY\<rparr>) initial_heap) = [])"
proof -
  let ?b = "daily_defaults\<lparr>email_address := Some USERNAME, key := Some APIKEY\<rparr>"
  have tb: "request_template ?b = request_template daily_defaults"
    by simp
  have l: "lacks (list_merged list_defaults (initial_heap (request_template list_defaults))) ''email''"
    by (simp add: lacks_def list_merged_def overlay_def list_defaults_def initial_heap_def
          AQS_REQUEST_TEMPLATE_literal_def)
  have d: "lacks (daily_merged ?b (initial_heap (request_template ?b))) ''param''"
    by (simp add: lacks_def daily_merged_def overlay_def overlay_fips_def daily_defaults_def
          initial_heap_def AQS_REQUEST_TEMPLATE_literal_def USERNAME_def APIKEY_def)
  from missing_field_raises_before_any_io [of list_defaults initial_heap offline_env ?b] l d
  show ?thesis
    unfolding tb by simp
qed

text \<open>The exceptions of these two calls.\<close>

lemma missing_field_examples:
  "result (request_list_info offline_env list_defaults initial_heap)
     = Inl (Exception (list_msg ''an email address''))"
  "result (request_daily_summary offline_env
               (daily_defaults\<lparr>email_address := Some USERNAME, key := Some APIKEY\<rparr>) initial_heap) 
     = Inl (Exception (daily_msg ''param values''))"
  by (simp_all add: request_list_info_def request_daily_summary_def checked_request_def check_field_def
       list_merged_def daily_merged_def overlay_def overlay_fips_def list_defaults_def daily_defaults_def
          initial_heap_def AQS_REQUEST_TEMPLATE_literal_def USERNAME_def APIKEY_def)

subsection \<open>The request itself\<close>

lemma throttle_positive: "API_THROTTLE_WAIT > 0"
  by (simp add: API_THROTTLE_WAIT_def API_LATENCY_ASSUMED_def)

lemma make_request_get_raises:
  "requests_get env url hdrs = Inl e \<Longrightarrow>
     make_request env url hdrs = ([Sleep API_THROTTLE_WAIT, HttpGet url hdrs, Print e], JNull)"
  by (simp add: make_request_def throttle_positive)

lemma make_request_json_raises:
  "requests_get env url hdrs = Inr r \<Longrightarrow> response_json env r = Inl e \<Longrightarrow>
     make_request env url hdrs = ([Sleep API_THROTTLE_WAIT, HttpGet url hdrs, Print e], JNull)"
  by (simp add: make_request_def throttle_positive)

lemma make_request_decoded:
  "requests_get env url hdrs = Inr r \<Longrightarrow> response_json env r = Inr doc \<Longrightarrow>
     make_request env url hdrs = ([Sleep API_THROTTLE_WAIT, HttpGet url hdrs], doc)"
  by (simp add: make_request_def throttle_positive)

lemma make_request_get_only:
  "HttpGet url hdrs \<in> set (fst (make_request env url' hdrs')) \<Longrightarrow> url = url' \<and> hdrs = hdrs'"
  by (auto simp add: make_request_def Let_def split: if_splits sum.splits)

text \<open>A call whose effects include a GET has passed the checks and made its one request.\<close>

lemma checked_request_reached:
  assumes "HttpGet url hdrs \<in> set (events (checked_request env h t checks base action hdrs'))"
  shows "hdrs = hdrs' \<and>
         events (checked_request env h t checks base action hdrs') = fst (make_request env url hdrs) \<and>
         result (checked_request env h t checks base action hdrs') = Inr (snd (make_request env url hdrs))"
proof (cases "first_raise checks")
  case (Some e)
  with assms show ?thesis by (simp add: checked_request_def)
next
  case None
  show ?thesis
  proof (cases "str_format env action t")
    case (Inl e)
    with None assms show ?thesis by (simp add: checked_request_def)
  next
    case (Inr path)
    obtain evs doc where mr: "make_request env (base @ path) hdrs' = (evs, doc)"
      by (cases "make_request env (base @ path) hdrs'")
    with None Inr assms have "HttpGet url hdrs \<in> set (fst (make_request env (base @ path) hdrs'))"
      by (simp add: checked_request_def)
    from make_request_get_only [OF this] have "url = base @ path" "hdrs = hdrs'"
      by simp_all
    with None Inr mr show ?thesis
      by (simp add: checked_request_def)
  qed
qed

lemma request_reached:
  assumes "out = request_list_info env a h \<or> out = request_daily_summary env b h"
      and "HttpGet url hdrs \<in> set (events out)"
  shows "events out = fst (make_request env url hdrs) \<and> result out = Inr (snd (make_request env url hdrs))"
  using assms(1)
proof
  assume "out = request_list_info env a h"
  with assms(2) checked_request_reached show ?thesis
    unfolding request_list_info_def Let_def by metis
next
  assume "out = request_daily_summary env b h"
  with assms(2) checked_request_reached show ?thesis
    unfolding request_daily_summary_def Let_def by metis
qed

text \<open>
  Claim C5. In a call of either function that gets as far as its GET, if the GET raises,
  or the decoding of its response raises, the function returns \<open>None\<close>; its effects
  are the sleep, that one GET and the printing of the exception, in this order, and
  nothing more: no second request, no further wait.
\<close>

theorem transport_failure_is_printed_and_gives_None:
  assumes "out = request_list_info env a h \<or> out = request_daily_summary env b h"
      and "HttpGet url hdrs \<in> set (events out)"
      and "requests_get env url hdrs = Inl e
           \<or> (\<exists>r. requests_get env url hdrs = Inr r \<and> response_json env r = Inl e)"
  shows "result out = Inr JNull
       \<and> events out = [Sleep API_THROTTLE_WAIT, HttpGet url hdrs, Print e]"
proof -
  from assms(3) have "make_request env url hdrs = ([Sleep API_THROTTLE_WAIT, HttpGet url hdrs, Print e], JNull)"
    by (auto simp add: make_request_get_raises make_request_json_raises)
  with request_reached [OF assms(1,2)] show ?thesis
    by simp
qed

text \<open>
  Claim C6. In a call of either function whose GET is answered by a document that
  decodes, and whose \<open>Header[0].status\<close> is something other than \<open>"Success"\<close>, the
  function returns that very document: it does not raise, the value is not \<open>None\<close>,
  and nothing is printed.
\<close>

theorem non_success_document_is_returned:
  assumes "out = request_list_info env a h \<or> out = request_daily_summary env b h"
      and "HttpGet url hdrs \<in> set (events out)"
      and "requests_get env url hdrs = Inr r"
      and "response_json env r = Inr doc"
      and "header_status doc = Inr status"
      and "status \<noteq> JStr ''Success''"
  shows "result out = Inr doc \<and> doc \<noteq> JNull
       \<and> events out = [Sleep API_THROTTLE_WAIT, HttpGet url hdrs]"
proof -
  from assms(5) have "doc \<noteq> JNull"
    by (auto simp add: header_status_def)
  with request_reached [OF assms(1,2)] make_request_decoded [OF assms(3,4)] show ?thesis
    by simp
qed


lemmas example_defs =
  list_example_def daily_example_def list_example_url_def daily_example_url_def
  list_defaults_def daily_defaults_def USERNAME_def APIKEY_def AQI_PARAMS_PARTICULATES_def
  RAPID_CITY_FIPS_def API_REQUEST_URL_def API_ACTION_LIST_CLASSES_def
  API_ACTION_DAILY_SUMMARY_COUNTY_def initial_heap_def AQS_REQUEST_TEMPLATE_literal_def
  AQS_REQUEST_TEMPLATE_def

lemmas call_defs =
  request_list_info_def request_daily_summary_def checked_request_def check_field_def
  list_merged_def daily_merged_def overlay_def overlay_fips_def list_msg_def daily_msg_def
  format_fields_def

lemma list_example_url:
  "str_format (fixture_env doc) (endpoint_action list_example)
     (list_merged list_example (initial_heap (request_template list_example)))
   = Inr (drop (length API_REQUEST_URL) list_example_url)"
  by (simp add: example_defs call_defs fixture_env_def)

lemma daily_example_url:
  "str_format (fixture_env doc) (endpoint_action daily_example)
     (daily_merged daily_example (initial_heap (request_template daily_example)))
   = Inr (drop (length API_REQUEST_URL) daily_example_url)"
  by (simp add: example_defs call_defs fixture_env_def)


lemma list_example_offline_get:
  "HttpGet list_example_url None
     \<in> set (events (request_list_info offline_env list_example initial_heap))"
  by (simp add: example_defs call_defs offline_env_def make_request_def)

lemma daily_example_garbled_get:
  "HttpGet daily_example_url None
     \<in> set (events (request_daily_summary garbled_env daily_example initial_heap))"
  by (simp add: example_defs call_defs garbled_env_def make_request_def)

text \<open>A list request with the network down, a daily request answered by a body that does not decode.\<close>

theorem transport_failure_is_printed_and_gives_None_witness:
  "HttpGet list_example_url None
     \<in> set (events (request_list_info offline_env list_example initial_heap))
   \<and> requests_get offline_env list_example_url None = Inl (LibraryError ''ConnectionError'')
   \<and> result (request_list_info offline_env list_example initial_heap) = Inr JNull
   \<and> events (request_list_info offline_env list_example initial_heap)
       = [Sleep API_THROTTLE_WAIT, HttpGet list_example_url None,
          Print (LibraryError ''ConnectionError'')]
   \<and> HttpGet daily_example_url None
     \<in> set (events (request_daily_summary garbled_env daily_example initial_heap))
   \<and> requests_get garbled_env daily_example_url None = Inr daily_example_url
   \<and> response_json garbled_env daily_example_url = Inl (LibraryError ''JSONDecodeError'')
   \<and> result (request_daily_summary garbled_env daily_example initial_heap) = Inr JNull
   \<and> events (request_daily_summary garbled_env daily_example initial_heap)
       = [Sleep API_THROTTLE_WAIT, HttpGet daily_example_url None,
          Print (LibraryError ''JSONDecodeError'')]"
proof -
  let ?l = "request_list_info offline_env list_example initial_heap"
  let ?d = "request_daily_summary garbled_env daily_example initial_heap"
  have l1: "?l = request_list_info offline_env list_example initial_heap
            \<or> ?l = request_daily_summary offline_env daily_example initial_heap"
    by simp
  have l3: "requests_get offline_env list_example_url None = Inl (LibraryError ''ConnectionError'')"
    by (simp add: offline_env_def)
  have d1: "?d = request_list_info garbled_env list_example initial_heap
            \<or> ?d = request_daily_summary garbled_env daily_example initial_heap"
    by simp
  have d3: "requests_get garbled_env daily_example_url None = Inr daily_example_url"
    and d4: "response_json garbled_env daily_example_url = Inl (LibraryError ''JSONDecodeError'')"
    by (simp_all add: garbled_env_def)
  from d3 d4 have d5: "requests_get garbled_env daily_example_url None = Inl (LibraryError ''JSONDecodeError'')
      \<or> (\<exists>r. requests_get garbled_env daily_example_url None = Inr r
              \<and> response_json garbled_env r = Inl (LibraryError ''JSONDecodeError''))"
    by simp
  note l = transport_failure_is_printed_and_gives_None [OF l1 list_example_offline_get disjI1 [OF l3]]
  note d = transport_failure_is_printed_and_gives_None [OF d1 daily_example_garbled_get d5]
  from l d l3 d3 d4 list_example_offline_get daily_example_garbled_get show ?thesis
    by simp
qed

lemma list_example_fixture_get:
  "HttpGet list_example_url None
     \<in> set (events (request_list_info (fixture_env doc) list_example initial_heap))"
  by (simp add: example_defs call_defs fixture_env_def make_request_def)

lemma daily_example_fixture_get:
  "HttpGet daily_example_url None
     \<in> set (events (request_daily_summary (fixture_env doc) daily_example initial_heap))"
  by (simp add: example_defs call_defs fixture_env_def make_request_def)

text \<open>Both example calls, answered with the document reporting a failure.\<close>

theorem non_success_document_is_returned_witness:
  "header_status failed_document = Inr (JStr ''Failed'')
   \<and> result (request_list_info (fixture_env failed_document) list_example initial_heap)
       = Inr failed_document
   \<and> events (request_list_info (fixture_env failed_document) list_example initial_heap)
       = [Sleep API_THROTTLE_WAIT, HttpGet list_example_url None]
   \<and> result (request_daily_summary (fixture_env failed_document) daily_example initial_heap)
       = Inr failed_document
   \<and> events (request_daily_summary (fixture_env failed_document) daily_example initial_heap)
       = [Sleep API_THROTTLE_WAIT, HttpGet daily_example_url None]
   \<and> failed_document \<noteq> JNull"
proof -
  let ?env = "fixture_env failed_document"
  let ?l = "request_list_info ?env list_example initial_heap"
  let ?d = "request_daily_summary ?env daily_example initial_heap"
  have l1: "?l = request_list_info ?env list_example initial_heap
            \<or> ?l = request_daily_summary ?env daily_example initial_heap"
    and d1: "?d = request_list_info ?env list_example initial_heap
            \<or> ?d = request_daily_summary ?env daily_example initial_heap"
    by simp_all
  have get: "requests_get ?env url None = Inr url" for url
    by (simp add: fixture_env_def)
  have dec: "response_json ?env url = Inr failed_document" for url
    by (simp add: fixture_env_def)
  have st: "header_status failed_document = Inr (JStr ''Failed'')"
    by (simp add: header_status_def failed_document_def)
  have ne: "JStr ''Failed'' \<noteq> JStr ''Success''"
    by simp
  note l = non_success_document_is_returned [OF l1 list_example_fixture_get get dec st ne]
  note d = non_success_document_is_returned [OF d1 daily_example_fixture_get get dec st ne]
  from l d st show ?thesis
    by simp
qed

subsection \<open>The shared default template\<close>

lemma overlay_same: "given arg \<Longrightarrow> t f = map_option PyStr arg \<Longrightarrow> overlay f arg t = t"
  by (cases arg) (auto simp add: overlay_def given_def)

lemma overlay_fips_same:
  "fips5 arg \<Longrightarrow> t ''state'' = map_option (\<lambda>s. PyStr (take 2 s)) arg \<Longrightarrow>
     t ''county'' = map_option (\<lambda>s. PyStr (drop 2 s)) arg \<Longrightarrow> overlay_fips arg t = t"
  by (cases arg) (auto simp add: overlay_fips_def fips5_def)

lemma overlay_fips_fips5:
  "fips5 arg \<Longrightarrow>
     overlay_fips arg t ''state'' = map_option (\<lambda>s. PyStr (take 2 s)) arg \<and>
     overlay_fips arg t ''county'' = map_option (\<lambda>s. PyStr (drop 2 s)) arg"
  by (cases arg) (auto simp add: overlay_fips_def fips5_def)

text \<open>What the merged templates hold for an argument that was passed.\<close>

lemma list_merged_given:
  "given (email_address a) \<Longrightarrow> list_merged a t ''email'' = map_option PyStr (email_address a)"
  "given (key a) \<Longrightarrow> list_merged a t ''key'' = map_option PyStr (key a)"
  by (simp_all add: list_merged_def overlay_given overlay_other)

lemma daily_merged_given:
  "given (email_address a) \<Longrightarrow> daily_merged a t ''email'' = map_option PyStr (email_address a)"
  "given (key a) \<Longrightarrow> daily_merged a t ''key'' = map_option PyStr (key a)"
  "given (param a) \<Longrightarrow> daily_merged a t ''param'' = map_option PyStr (param a)"
  "given (begin_date a) \<Longrightarrow> daily_merged a t ''begin_date'' = map_option PyStr (begin_date a)"
  "given (end_date a) \<Longrightarrow> daily_merged a t ''end_date'' = map_option PyStr (end_date a)"
  by (simp_all add: daily_merged_def overlay_given overlay_other overlay_fips_other)

lemma daily_merged_fips5:
  "fips5 (fips a) \<Longrightarrow>
     daily_merged a t ''state'' = map_option (\<lambda>s. PyStr (take 2 s)) (fips a) \<and>
     daily_merged a t ''county'' = map_option (\<lambda>s. PyStr (drop 2 s)) (fips a)"
  by (simp add: daily_merged_def overlay_fips_fips5)

text \<open>
  A call that does not pass a field the template already holds behaves as the call that
  passes the held value.
\<close>

lemma list_call_email:
  assumes "given arg" "t ''email'' = map_option PyStr arg" "\<not> given (email_address b)"
  shows "list_merged (b\<lparr>email_address := arg\<rparr>) t = list_merged b t"
  using assms by (simp add: list_merged_def overlay_same overlay_not_given)

lemma list_call_key:
  assumes "given arg" "t ''key'' = map_option PyStr arg" "\<not> given (key b)"
  shows "list_merged (b\<lparr>key := arg\<rparr>) t = list_merged b t"
  using assms by (simp add: list_merged_def overlay_same overlay_not_given overlay_other)

lemma daily_call_email:
  assumes "given arg" "t ''email'' = map_option PyStr arg" "\<not> given (email_address b)"
  shows "daily_merged (b\<lparr>email_address := arg\<rparr>) t = daily_merged b t"
  using assms by (simp add: daily_merged_def overlay_same overlay_not_given)

lemma daily_call_key:
  assumes "given arg" "t ''key'' = map_option PyStr arg" "\<not> given (key b)"
  shows "daily_merged (b\<lparr>key := arg\<rparr>) t = daily_merged b t"
  using assms by (simp add: daily_merged_def overlay_same overlay_not_given overlay_other)

lemma daily_call_param:
  assumes "given arg" "t ''param'' = map_option PyStr arg" "\<not> given (param b)"
  shows "daily_merged (b\<lparr>param := arg\<rparr>) t = daily_merged b t"
  using assms by (simp add: daily_merged_def overlay_same overlay_not_given overlay_other)

lemma daily_call_begin_date:
  assumes "given arg" "t ''begin_date'' = map_option PyStr arg" "\<not> given (begin_date b)"
  shows "daily_merged (b\<lparr>begin_date := arg\<rparr>) t = daily_merged b t"
  using assms by (simp add: daily_merged_def overlay_same overlay_not_given overlay_other)

lemma daily_call_end_date:
  assumes "given arg" "t ''end_date'' = map_option PyStr arg" "\<not> given (end_date b)"
  shows "daily_merged (b\<lparr>end_date := arg\<rparr>) t = daily_merged b t"
  using assms by (simp add: daily_merged_def overlay_same overlay_not_given overlay_other)

lemma daily_call_fips:
  assumes "fips5 arg" "t ''state'' = map_option (\<lambda>s. PyStr (take 2 s)) arg"
    "t ''county'' = map_option (\<lambda>s. PyStr (drop 2 s)) arg" "\<not> fips5 (fips b)"
  shows "daily_merged (b\<lparr>fips := arg\<rparr>) t = daily_merged b t"
  using assms
  by (simp add: daily_merged_def overlay_fips_same overlay_fips_not_fips5 overlay_other)


text \<open>
  Claim C10. The default of \<open>request_template\<close> in both functions is the one dictionary
  \<open>AQS_REQUEST_TEMPLATE\<close>, and the functions write into the dictionary they are given.
  So for calls that omit \<open>request_template\<close>: every argument the call passes (email,
  key, param, the two dates, and state and county from a five-character FIPS) is in the
  shared dictionary afterwards, and a later call that omits \<open>request_template\<close> and
  does not pass that argument behaves exactly as if it had been passed the value of the
  earlier call. Here \<open>a\<close> and \<open>la\<close> are the arguments of an earlier daily and list
  call, \<open>b\<close> and \<open>lb\<close> those of a later one.
\<close>

theorem default_template_is_shared_between_calls:
  assumes a: "request_template a = AQS_REQUEST_TEMPLATE"
      and la: "request_template la = AQS_REQUEST_TEMPLATE"
      and b: "request_template b = AQS_REQUEST_TEMPLATE"
      and lb: "request_template lb = AQS_REQUEST_TEMPLATE"
      and after_daily: "h\<^sub>d = heap_after (request_daily_summary env a h)"
      and after_list: "h\<^sub>l = heap_after (request_list_info env la h)"
  shows "(given (email_address a) \<longrightarrow>
            h\<^sub>d AQS_REQUEST_TEMPLATE ''email'' = map_option PyStr (email_address a))
       \<and> (given (key a) \<longrightarrow>
            h\<^sub>d AQS_REQUEST_TEMPLATE ''key'' = map_option PyStr (key a))
       \<and> (given (param a) \<longrightarrow>
            h\<^sub>d AQS_REQUEST_TEMPLATE ''param'' = map_option PyStr (param a))
       \<and> (given (begin_date a) \<longrightarrow>
            h\<^sub>d AQS_REQUEST_TEMPLATE ''begin_date'' = map_option PyStr (begin_date a))
       \<and> (given (end_date a) \<longrightarrow>
            h\<^sub>d AQS_REQUEST_TEMPLATE ''end_date'' = map_option PyStr (end_date a))
       \<and> (fips5 (fips a) \<longrightarrow>
            h\<^sub>d AQS_REQUEST_TEMPLATE ''state'' = map_option (\<lambda>s. PyStr (take 2 s)) (fips a)
          \<and> h\<^sub>d AQS_REQUEST_TEMPLATE ''county'' = map_option (\<lambda>s. PyStr (drop 2 s)) (fips a))
       \<and> (given (email_address la) \<longrightarrow>
            h\<^sub>l AQS_REQUEST_TEMPLATE ''email'' = map_option PyStr (email_address la))
       \<and> (given (key la) \<longrightarrow>
            h\<^sub>l AQS_REQUEST_TEMPLATE ''key'' = map_option PyStr (key la))
       \<and> (given (email_address a) \<and> \<not> given (email_address b) \<longrightarrow>
            request_daily_summary env' b h\<^sub>d
              = request_daily_summary env' (b\<lparr>email_address := email_address a\<rparr>) h\<^sub>d)
       \<and> (given (key a) \<and> \<not> given (key b) \<longrightarrow>
            request_daily_summary env' b h\<^sub>d
              = request_daily_summary env' (b\<lparr>key := key a\<rparr>) h\<^sub>d)
       \<and> (given (param a) \<and> \<not> given (param b) \<longrightarrow>
            request_daily_summary env' b h\<^sub>d
              = request_daily_summary env' (b\<lparr>param := param a\<rparr>) h\<^sub>d)
       \<and> (given (begin_date a) \<and> \<not> given (begin_date b) \<longrightarrow>
            request_daily_summary env' b h\<^sub>d
              = request_daily_summary env' (b\<lparr>begin_date := begin_date a\<rparr>) h\<^sub>d)
       \<and> (given (end_date a) \<and> \<not> given (end_date b) \<longrightarrow>
            request_daily_summary env' b h\<^sub>d
              = request_daily_summary env' (b\<lparr>end_date := end_date a\<rparr>) h\<^sub>d)
       \<and> (fips5 (fips a) \<and> \<not> fips5 (fips b) \<longrightarrow>
            request_daily_summary env' b h\<^sub>d
              = request_daily_summary env' (b\<lparr>fips := fips a\<rparr>) h\<^sub>d)
       \<and> (given (email_address a) \<and> \<not> given (email_address lb) \<longrightarrow>
            request_list_info env' lb h\<^sub>d
              = request_list_info env' (lb\<lparr>email_address := email_address a\<rparr>) h\<^sub>d)
       \<and> (given (key a) \<and> \<not> given (key lb) \<longrightarrow>
            request_list_info env' lb h\<^sub>d
              = request_list_info env' (lb\<lparr>key := key a\<rparr>) h\<^sub>d)
       \<and> (given (email_address la) \<and> \<not> given (email_address b) \<longrightarrow>
            request_daily_summary env' b h\<^sub>l
              = request_daily_summary env' (b\<lparr>email_address := email_address la\<rparr>) h\<^sub>l)
       \<and> (given (key la) \<and> \<not> given (key b) \<longrightarrow>
            request_daily_summary env' b h\<^sub>l
              = request_daily_summary env' (b\<lparr>key := key la\<rparr>) h\<^sub>l)
       \<and> (given (email_address la) \<and> \<not> given (email_address lb) \<longrightarrow>
            request_list_info env' lb h\<^sub>l
              = request_list_info env' (lb\<lparr>email_address := email_address la\<rparr>) h\<^sub>l)
       \<and> (given (key la) \<and> \<not> given (key lb) \<longrightarrow>
            request_list_info env' lb h\<^sub>l
              = request_list_info env' (lb\<lparr>key := key la\<rparr>) h\<^sub>l)"
proof -
  have after_daily_t: "h\<^sub>d AQS_REQUEST_TEMPLATE = daily_merged a (h AQS_REQUEST_TEMPLATE)"
    using after_daily a by (simp add: heap_after_request_daily_summary)
  have after_list_t: "h\<^sub>l AQS_REQUEST_TEMPLATE = list_merged la (h AQS_REQUEST_TEMPLATE)"
    using after_list la by (simp add: heap_after_request_list_info)
  show ?thesis
    apply (intro conjI impI)
    apply (simp_all only: after_daily_t after_list_t daily_merged_given list_merged_given daily_merged_fips5)
    apply (simp_all add: request_daily_summary_def request_list_info_def b lb after_daily_t after_list_t
        daily_merged_given list_merged_given daily_merged_fips5
        daily_call_email daily_call_key daily_call_param daily_call_begin_date
        daily_call_end_date daily_call_fips list_call_email list_call_key)
    done
qed


text \<open>
  The effect seen from outside: a list request without any argument raises on the
  initial template, but after the daily example call it goes out with the credentials
  that call had been given.
\<close>

lemma no_argument_call_on_initial_template:
  "result (request_list_info (fixture_env doc) list_defaults initial_heap)
     = Inl (Exception (list_msg ''an email address''))"
  by (simp add: example_defs call_defs)

lemma no_argument_call_after_daily_example:
  "events (request_list_info (fixture_env doc) list_defaults
      (heap_after (request_daily_summary offline_env daily_example initial_heap)))
     = [Sleep API_THROTTLE_WAIT, HttpGet list_example_url None]"
  apply (simp only: heap_after_request_daily_summary)
  apply (simp add: example_defs call_defs fixture_env_def make_request_def throttle_positive)
  done

text \<open>
  The example calls as earlier calls, calls without any argument as later ones.
\<close>

theorem default_template_is_shared_between_calls_witness:
  "request_template daily_example = AQS_REQUEST_TEMPLATE
   \<and> request_template list_example = AQS_REQUEST_TEMPLATE
   \<and> request_template daily_defaults = AQS_REQUEST_TEMPLATE
   \<and> request_template list_defaults = AQS_REQUEST_TEMPLATE
   \<and> heap_after (request_daily_summary offline_env daily_example initial_heap)
         AQS_REQUEST_TEMPLATE ''email'' = Some (PyStr USERNAME)
   \<and> heap_after (request_daily_summary offline_env daily_example initial_heap)
         AQS_REQUEST_TEMPLATE ''key'' = Some (PyStr APIKEY)
   \<and> heap_after (request_daily_summary offline_env daily_example initial_heap)
         AQS_REQUEST_TEMPLATE ''param'' = Some (PyStr AQI_PARAMS_PARTICULATES)
   \<and> heap_after (request_daily_summary offline_env daily_example initial_heap)
         AQS_REQUEST_TEMPLATE ''begin_date'' = Some (PyStr ''19850501'')
   \<and> heap_after (request_daily_summary offline_env daily_example initial_heap)
         AQS_REQUEST_TEMPLATE ''end_date'' = Some (PyStr ''19851031'')
   \<and> heap_after (request_daily_summary offline_env daily_example initial_heap)
         AQS_REQUEST_TEMPLATE ''state'' = Some (PyStr ''46'')
   \<and> heap_after (request_daily_summary offline_env daily_example initial_heap)
         AQS_REQUEST_TEMPLATE ''county'' = Some (PyStr ''103'')
   \<and> heap_after (request_list_info offline_env list_example initial_heap)
         AQS_REQUEST_TEMPLATE ''email'' = Some (PyStr USERNAME)
   \<and> heap_after (request_list_info offline_env list_example initial_heap)
         AQS_REQUEST_TEMPLATE ''key'' = Some (PyStr APIKEY)
   \<and> request_daily_summary (fixture_env failed_document) daily_defaults
         (heap_after (request_daily_summary offline_env daily_example initial_heap))
       = request_daily_summary (fixture_env failed_document)
           (daily_defaults\<lparr>fips := Some RAPID_CITY_FIPS\<rparr>)
           (heap_after (request_daily_summary offline_env daily_example initial_heap))
   \<and> request_list_info (fixture_env failed_document) list_defaults
         (heap_after (request_daily_summary offline_env daily_example initial_heap))
       = request_list_info (fixture_env failed_document)
           (list_defaults\<lparr>email_address := Some USERNAME\<rparr>)
           (heap_after (request_daily_summary offline_env daily_example initial_heap))
   \<and> request_daily_summary (fixture_env failed_document) daily_defaults
         (heap_after (request_list_info offline_env list_example initial_heap))
       = request_daily_summary (fixture_env failed_document)
           (daily_defaults\<lparr>key := Some APIKEY\<rparr>)
           (heap_after (request_list_info offline_env list_example initial_heap))
   \<and> request_list_info (fixture_env failed_document) list_defaults
         (heap_after (request_list_info offline_env list_example initial_heap))
       = request_list_info (fixture_env failed_document)
           (list_defaults\<lparr>key := Some APIKEY\<rparr>)
           (heap_after (request_list_info offline_env list_example initial_heap))"
proof -
  have ta: "request_template daily_example = AQS_REQUEST_TEMPLATE"
    and tla: "request_template list_example = AQS_REQUEST_TEMPLATE"
    and tb: "request_template daily_defaults = AQS_REQUEST_TEMPLATE"
    and tlb: "request_template list_defaults = AQS_REQUEST_TEMPLATE"
    by (simp_all add: daily_example_def list_example_def daily_defaults_def list_defaults_def)
  have passed: "given (Some USERNAME)" "given (Some APIKEY)" "given (Some AQI_PARAMS_PARTICULATES)"
    "given (Some ''19850501'')" "given (Some ''19851031'')" "fips5 (Some RAPID_CITY_FIPS)"
    by (simp_all add: given_def fips5_def USERNAME_def APIKEY_def AQI_PARAMS_PARTICULATES_def
          RAPID_CITY_FIPS_def)
  have omitted: "\<not> given (email_address daily_defaults)" "\<not> given (key daily_defaults)"
    "\<not> given (param daily_defaults)" "\<not> given (begin_date daily_defaults)"
    "\<not> given (end_date daily_defaults)" "\<not> fips5 (fips daily_defaults)"
    "\<not> given (email_address list_defaults)" "\<not> given (key list_defaults)"
    by (simp_all add: daily_defaults_def list_defaults_def given_def fips5_def)
  have args: "email_address daily_example = Some USERNAME" "key daily_example = Some APIKEY"
    "param daily_example = Some AQI_PARAMS_PARTICULATES" "begin_date daily_example = Some ''19850501''"
    "end_date daily_example = Some ''19851031''" "fips daily_example = Some RAPID_CITY_FIPS"
    "email_address list_example = Some USERNAME" "key list_example = Some APIKEY"
    "take 2 RAPID_CITY_FIPS = ''46''" "drop 2 RAPID_CITY_FIPS = ''103''"
    by (simp_all add: daily_example_def list_example_def daily_defaults_def list_defaults_def
          RAPID_CITY_FIPS_def)
  note shared = default_template_is_shared_between_calls
    [where env = offline_env and h = initial_heap and env' = "fixture_env failed_document",
      OF ta tla tb tlb refl refl]
  show ?thesis
    using shared
    apply (simp (no_asm_use) add: passed omitted args)
    apply (elim conjE)
    apply (intro conjI ta tla tb tlb; assumption)
    done
qed

subsection \<open>The throttle\<close>

text \<open>
  Claim C3 says that the interval slept before every request is the one a ceiling of 100
  requests per minute gives, 60/100 of a second less the assumed latency, and that it is
  waited before each request whether or not the request then fails. The second half
  holds: every request starts with the sleep. The first does not: the notebook computes
  \<^verbatim>\<open>(1.0/100.0)-API_LATENCY_ASSUMED\<close>, which is 8 milliseconds, where 100 requests per
  minute (the limit its own comment announces) would give 598 milliseconds.
\<close>

theorem throttle_wait_is_eight_milliseconds:
  "API_THROTTLE_WAIT = 8 / 1000
   \<and> 60 / 100 - API_LATENCY_ASSUMED = 598 / 1000
   \<and> API_THROTTLE_WAIT \<noteq> 60 / 100 - API_LATENCY_ASSUMED
   \<and> take 1 (fst (make_request env request_url hdrs)) = [Sleep (8 / 1000)]"
  by (simp add: API_THROTTLE_WAIT_def API_LATENCY_ASSUMED_def make_request_def Let_def
        split: sum.split)

subsection \<open>The yearly aggregation\<close>

text \<open>
  One request of the loop, for a symbolic year, against a transport whose
  \<open>str.format\<close> is \<open>format_fields\<close>; then the loop and the cell, when every year's
  answer yields a value, and when the first year's answer raises.
\<close>

lemma season_merged:
  "daily_merged (season_args rd i) t
     = t(''begin_date'' \<mapsto> PyStr (str_int i @ ''0501''), ''end_date'' \<mapsto> PyStr (str_int i @ ''1031''))"
  by (simp add: season_args_def daily_defaults_def daily_merged_def overlay_def overlay_fips_def)

lemma season_format:
  assumes "cell_template t"
  shows "format_fields fs API_ACTION_DAILY_SUMMARY_COUNTY
           (t(''begin_date'' \<mapsto> PyStr (str_int i @ ''0501''), ''end_date'' \<mapsto> PyStr (str_int i @ ''1031'')))
         = Inr (drop (length API_REQUEST_URL) (season_url i))"
  using assms
  by (simp add: cell_template_def format_fields_def API_ACTION_DAILY_SUMMARY_COUNTY_def season_url_def
        API_REQUEST_URL_def USERNAME_def APIKEY_def AQI_PARAMS_PARTICULATES_def)


lemma cell_template_checks:
  assumes "cell_template t"
  shows "first_raise
           [check_field (t(''begin_date'' \<mapsto> PyStr (str_int i @ ''0501''), ''end_date'' \<mapsto> PyStr (str_int i @ ''1031'')))
              ''email'' m1,
            check_field (t(''begin_date'' \<mapsto> PyStr (str_int i @ ''0501''), ''end_date'' \<mapsto> PyStr (str_int i @ ''1031'')))
              ''key'' m2,
            check_field (t(''begin_date'' \<mapsto> PyStr (str_int i @ ''0501''), ''end_date'' \<mapsto> PyStr (str_int i @ ''1031'')))
              ''param'' m3,
            check_field (t(''begin_date'' \<mapsto> PyStr (str_int i @ ''0501''), ''end_date'' \<mapsto> PyStr (str_int i @ ''1031'')))
              ''begin_date'' m4,
            check_field (t(''begin_date'' \<mapsto> PyStr (str_int i @ ''0501''), ''end_date'' \<mapsto> PyStr (str_int i @ ''1031'')))
              ''end_date'' m5] = None"
  using assms
  by (simp add: cell_template_def check_field_def USERNAME_def APIKEY_def AQI_PARAMS_PARTICULATES_def)

lemma cell_template_kept:
  "cell_template t \<Longrightarrow>
     cell_template (t(''begin_date'' \<mapsto> PyStr b, ''end_date'' \<mapsto> PyStr e))"
  by (simp add: cell_template_def)

lemma season_request:
  assumes fmt: "str_format env = format_fields fs"
      and get: "requests_get env (season_url i) None = Inr r"
      and dec: "response_json env r = Inr doc"
      and t: "cell_template (h rd)"
  shows "request_daily_summary env (season_args rd i) h
         = \<lparr>heap_after = h(rd := (h rd)(''begin_date'' \<mapsto> PyStr (str_int i @ ''0501''),
                                         ''end_date'' \<mapsto> PyStr (str_int i @ ''1031''))),
            events = [Sleep API_THROTTLE_WAIT, HttpGet (season_url i) None],
            result = Inr doc\<rparr>"
proof -
  have args: "request_template (season_args rd i) = rd"
    "endpoint_url (season_args rd i) = API_REQUEST_URL"
    "endpoint_action (season_args rd i) = API_ACTION_DAILY_SUMMARY_COUNTY"
    "headers (season_args rd i) = None"
    by (simp_all add: season_args_def daily_defaults_def)
  have url: "API_REQUEST_URL @ drop (length API_REQUEST_URL) (season_url i) = season_url i"
    by (simp add: season_url_def)
  show ?thesis
    unfolding request_daily_summary_def Let_def args season_merged checked_request_def
      cell_template_checks [OF t] fmt season_format [OF t]
    by (simp add: url make_request_decoded [OF get dec])
qed

lemma year_loop_values:
  assumes fmt: "str_format env = format_fields fs"
      and get: "\<forall>i \<in> set years. requests_get env (season_url i) None = Inr (r i)"
      and dec: "\<forall>i \<in> set years. response_json env (r i) = Inr (doc i)"
      and val: "\<forall>i \<in> set years. yearly_value data (doc i) = Inr (val i)"
      and t: "cell_template (ls_heap s rd)"
  shows "snd (year_loop env data rd years s) = None
       \<and> aqi (fst (year_loop env data rd years s)) = aqi s @ map val years
       \<and> year (fst (year_loop env data rd years s)) = year s @ years"
  using get dec val t
proof (induction years arbitrary: s)
  case Nil
  then show ?case by simp
next
  case (Cons i years)
  let ?out = "request_daily_summary env (season_args rd i) (ls_heap s)"
  let ?s1 = "s\<lparr>ls_heap := heap_after ?out, ls_events := ls_events s @ events ?out\<rparr>"
  let ?s2 = "?s1\<lparr>aqi := aqi ?s1 @ [val i], year := year ?s1 @ [i]\<rparr>"
  from Cons.prems have get_i: "requests_get env (season_url i) None = Inr (r i)"
    and dec_i: "response_json env (r i) = Inr (doc i)"
    and val_i: "yearly_value data (doc i) = Inr (val i)"
    by simp_all
  note out = season_request [where h = "ls_heap s" and rd = rd, OF fmt get_i dec_i Cons.prems(4)]
  have step: "year_loop env data rd (i # years) s = year_loop env data rd years ?s2"
    by (simp add: season_args_def [symmetric] out val_i)
  have "cell_template (ls_heap ?s2 rd)"
    using Cons.prems(4) by (simp add: out cell_template_kept)
  with Cons.prems have "snd (year_loop env data rd years ?s2) = None
       \<and> aqi (fst (year_loop env data rd years ?s2)) = aqi ?s2 @ map val years
       \<and> year (fst (year_loop env data rd years ?s2)) = year ?s2 @ years"
    by (intro Cons.IH) simp_all
  then show ?case
    unfolding step by simp
qed


lemma year_loop_raises:
  assumes fmt: "str_format env = format_fields fs"
      and get: "requests_get env (season_url i) None = Inr r"
      and dec: "response_json env r = Inr doc"
      and val: "yearly_value data doc = Inl e"
      and t: "cell_template (ls_heap s rd)"
  shows "snd (year_loop env data rd (i # rest) s) = Some e
       \<and> aqi (fst (year_loop env data rd (i # rest) s)) = aqi s
       \<and> year (fst (year_loop env data rd (i # rest) s)) = year s"
  by (simp add: season_args_def [symmetric] val
        season_request [where h = "ls_heap s" and rd = rd, OF fmt get dec t])

lemma cell_template_set:
  "cell_template
     (dict_set rd ''param'' (PyStr AQI_PARAMS_PARTICULATES)
       (dict_set rd ''county'' (PyStr (drop 2 RAPID_CITY_FIPS))
         (dict_set rd ''state'' (PyStr (take 2 RAPID_CITY_FIPS))
           (dict_set rd ''key'' (PyStr APIKEY)
             (dict_set rd ''email'' (PyStr USERNAME)
               (dict_copy AQS_REQUEST_TEMPLATE rd h))))) rd)"
  by (simp add: cell_template_def dict_set_def dict_copy_def RAPID_CITY_FIPS_def)

lemma aggregation_cell_values:
  assumes fmt: "str_format env = format_fields fs"
      and get: "\<forall>i \<in> set [1963..2023]. requests_get env (season_url i) None = Inr (r i)"
      and dec: "\<forall>i \<in> set [1963..2023]. response_json env (r i) = Inr (doc i)"
      and val: "\<forall>i \<in> set [1963..2023]. yearly_value data (doc i) = Inr (val i)"
  shows "snd (aggregation_cell env data rd h) = None
       \<and> aqi (fst (aggregation_cell env data rd h)) = map val [1963..2023]
       \<and> year (fst (aggregation_cell env data rd h)) = [1963..2023]"
  unfolding aggregation_cell_def Let_def
  using year_loop_values [OF fmt get dec val,
      where s = "\<lparr>ls_heap = dict_set rd ''param'' (PyStr AQI_PARAMS_PARTICULATES)
       (dict_set rd ''county'' (PyStr (drop 2 RAPID_CITY_FIPS))
         (dict_set rd ''state'' (PyStr (take 2 RAPID_CITY_FIPS))
           (dict_set rd ''key'' (PyStr APIKEY)
             (dict_set rd ''email'' (PyStr USERNAME)
               (dict_copy AQS_REQUEST_TEMPLATE rd h))))), ls_events = [], aqi = [], year = []\<rparr>"
      and rd = rd]
  by (simp add: cell_template_set del: upto_rec_numeral)

lemma aggregation_cell_raises:
  assumes fmt: "str_format env = format_fields fs"
      and get: "requests_get env (season_url 1963) None = Inr r"
      and dec: "response_json env r = Inr doc"
      and val: "yearly_value data doc = Inl e"
  shows "snd (aggregation_cell env data rd h) = Some e
       \<and> aqi (fst (aggregation_cell env data rd h)) = []
       \<and> year (fst (aggregation_cell env data rd h)) = []"
proof -
  have years: "[1963..2023] = 1963 # [1964..2023]"
    by (subst upto_rec1) (simp_all del: upto_rec_numeral)
  show ?thesis
    unfolding aggregation_cell_def Let_def years
    using year_loop_raises [OF fmt get dec val,
      where s = "\<lparr>ls_heap = dict_set rd ''param'' (PyStr AQI_PARAMS_PARTICULATES)
       (dict_set rd ''county'' (PyStr (drop 2 RAPID_CITY_FIPS))
         (dict_set rd ''state'' (PyStr (take 2 RAPID_CITY_FIPS))
           (dict_set rd ''key'' (PyStr APIKEY)
             (dict_set rd ''email'' (PyStr USERNAME)
               (dict_copy AQS_REQUEST_TEMPLATE rd h))))), ls_events = [], aqi = [], year = []\<rparr>"
      and rd = rd and rest = "[1964..2023]"]
    by (simp add: cell_template_set del: upto_rec_numeral)
qed

lemma yearly_value_examples:
  "yearly_value None spec_example_document = Inl name_error_data"
  "yearly_value (Some [''sample_duration'', ''observation_count'']) spec_example_document = Inr None"
  "yearly_value (Some [''aqi'']) spec_example_document = Inr (Some 10)"
  "yearly_value (Some [''aqi'']) zero_document = Inr (Some 0)"
  "yearly_value (Some [''aqi'']) ten_document = Inr (Some 10)"
  "yearly_value (Some [''aqi'']) empty_document = Inr None"
  by (simp_all add: yearly_value_def np_mean_def spec_example_document_def zero_document_def
        ten_document_def empty_document_def name_error_data_def)

lemma zero_year_answers:
  "\<forall>i \<in> set [1963..2023].
     yearly_value (Some [''aqi''])
       (case map_of zero_year_table (season_url i) of None \<Rightarrow> empty_document | Some doc \<Rightarrow> doc)
     = Inr (zero_year_value i)"
  by (simp add: zero_year_table_def zero_year_value_def season_url_def str_int_def digit_char_def
        yearly_value_examples)

text \<open>
  When \<open>data\<close> is bound to an object that has a key "aqi", and every record has an
  "aqi" field, the inner loop collects exactly the non-null fields, and the yearly value
  is their mean, or absent when there is none.
\<close>

lemma subscript_key_aqi:
  "aqi_of day = Some v \<Longrightarrow> subscript_key day ''aqi'' = Inr v"
  by (cases day) simp_all

lemma collect_aqis_when_bound:
  assumes "''aqi'' \<in> set ks" and "list_all (\<lambda>day. aqi_of day \<noteq> None) days"
  shows "collect_aqis (Some ks) days acc = Inr (acc @ non_null_aqis days)"
  using assms(2)
proof (induction days arbitrary: acc)
  case Nil
  then show ?case by (simp add: non_null_aqis_def List.map_filter_simps)
next
  case (Cons day days)
  then obtain v where v: "aqi_of day = Some v" by auto
  from Cons have rest: "collect_aqis (Some ks) days acc' = Inr (acc' @ non_null_aqis days)" for acc'
    by simp
  from v have here: "non_null_aqis (day # days) = (if v \<noteq> JNull then [v] else []) @ non_null_aqis days"
    by (simp add: non_null_aqis_def List.map_filter_simps)
  show ?case
    using assms(1) by (simp add: subscript_key_aqi [OF v] rest here)
qed

lemma yearly_value_when_bound:
  assumes "''aqi'' \<in> set ks"
      and "subscript_key req ''Data'' = Inr (JArr days)"
      and "list_all (\<lambda>day. aqi_of day \<noteq> None) days"
      and "list_all (\<lambda>v. as_number v \<noteq> None) (non_null_aqis days)"
  shows "yearly_value (Some ks) req =
           Inr (if non_null_aqis days = [] then None
                else Some (sum_list (map (\<lambda>v. the (as_number v)) (non_null_aqis days))
                           / of_nat (length (non_null_aqis days))))"
  using assms(2,4)
  by (simp add: yearly_value_def collect_aqis_when_bound [OF assms(1,3)] np_mean_def)

text \<open>
  Claim C1 says that the value derived for a year is the arithmetic mean of the non-null
  "aqi" fields of that year's records (10 for records with aqi 5, null and 15), and
  absent when all are null. The code does not compute it: the guard of the inner loop
  reads the name \<open>data\<close>, which no cell of the notebook assigns. With the name unbound
  the specification's own example raises \<open>NameError\<close> at its first record, and so does
  the whole cell, with nothing appended to \<open>aqi\<close>; with the name bound to an object
  that has no key "aqi" the value is absent although two fields are non-null.
\<close>

theorem aqi_guard_reads_unassigned_name:
  "yearly_value None spec_example_document = Inl name_error_data
   \<and> snd (aggregation_cell (fixture_env spec_example_document) None 1 initial_heap)
       = Some name_error_data
   \<and> aqi (fst (aggregation_cell (fixture_env spec_example_document) None 1 initial_heap)) = []
   \<and> yearly_value (Some [''sample_duration'', ''observation_count'']) spec_example_document
       = Inr None"
proof -
  have "str_format (fixture_env spec_example_document) = format_fields whole_float_str"
    and "requests_get (fixture_env spec_example_document) (season_url 1963) None = Inr (season_url 1963)"
    and "response_json (fixture_env spec_example_document) (season_url 1963) = Inr spec_example_document"
    by (simp_all add: fixture_env_def)
  from aggregation_cell_raises [OF this yearly_value_examples(1)] yearly_value_examples(1,2)
  show ?thesis
    by simp
qed

text \<open>
  Claim C8 says that the output has exactly one row for every year with at least one
  non-null aqi observation, and none for the other years. The filter
  \<^verbatim>\<open>df[df.aqi > 0]\<close> drops more than the missing values: a year whose observations are
  all 0 has mean 0 and loses its row. Here the season of 1985 has one record with aqi 0
  and that of 1986 one with aqi 10 (and \<open>data\<close> is bound to an object with a key
  "aqi", so that the loop completes): the cell ends without exception, the frame has the
  row of 1985 before the filter, and only the row of 1986 after it.
\<close>

theorem year_with_zero_mean_has_no_row:
  "snd (aggregation_cell (table_env zero_year_table) (Some [''aqi'']) 1 initial_heap) = None
   \<and> (Some 0, 1985) \<in> set (DataFrame
         (aqi (fst (aggregation_cell (table_env zero_year_table) (Some [''aqi'']) 1 initial_heap)))
         (year (fst (aggregation_cell (table_env zero_year_table) (Some [''aqi'']) 1 initial_heap))))
   \<and> yearly_value (Some [''aqi'']) zero_document = Inr (Some 0)
   \<and> final_frame (fst (aggregation_cell (table_env zero_year_table) (Some [''aqi'']) 1 initial_heap))
       = [(Some 10, 1986)]"
proof -
  let ?env = "table_env zero_year_table"
  have fmt: "str_format ?env = format_fields whole_float_str"
    by (simp add: table_env_def)
  have get: "\<forall>i \<in> set [1963..2023]. requests_get ?env (season_url i) None = Inr (season_url i)"
    by (simp add: table_env_def del: upto_rec_numeral)
  have dec: "\<forall>i \<in> set [1963..2023]. response_json ?env (season_url i)
      = Inr (case map_of zero_year_table (season_url i) of None \<Rightarrow> empty_document | Some doc \<Rightarrow> doc)"
    by (simp add: table_env_def del: upto_rec_numeral)
  note cell = aggregation_cell_values [OF fmt get dec zero_year_answers, of 1 initial_heap]
  have rows: "filter aqi_positive (zip (map zero_year_value [1963..2023]) [1963..2023]) = [(Some 10, 1986)]"
    by (simp add: zero_year_value_def aqi_positive_def)
  have row: "(Some 0, 1985) \<in> set (zip (map zero_year_value [1963..2023]) [1963..2023])"
    by (simp add: zero_year_value_def)
  from cell rows row yearly_value_examples(4) show ?thesis
    by (simp add: final_frame_def DataFrame_def del: upto_rec_numeral)
qed

end
